theory Spec2Isabelle
  imports Main
begin

section \<open>JavaScript values and errors\<close>

text \<open>
  A thrown JavaScript error. \<open>HttpError\<close> is an axios error that carries a response
  (\<open>error.response.status\<close>); the other constructors have no \<open>response\<close> field, so
  \<open>error.response?.status\<close> is \<open>undefined\<close> for them.
\<close>

datatype js_error =
    HttpError nat string
  | NetworkError string
  | TypeError string
  | RangeError string
  | PlainError string

fun response_status :: "js_error \<Rightarrow> nat option" where
  "response_status (HttpError st msg) = Some st"
| "response_status _ = None"

fun error_message :: "js_error \<Rightarrow> string" where
  "error_message (HttpError st msg) = msg"
| "error_message (NetworkError msg) = msg"
| "error_message (TypeError msg) = msg"
| "error_message (RangeError msg) = msg"
| "error_message (PlainError msg) = msg"

text \<open>
  A field that holds a string when it is present. JavaScript tells \<open>undefined\<close> (an
  absent field) from \<open>null\<close>; both, and the empty string, count as false in a
  condition.
\<close>

datatype opt_str = Undefined | Null | Str string

fun truthy_str :: "opt_str \<Rightarrow> bool" where
  "truthy_str (Str s) = (s \<noteq> [])"
| "truthy_str _ = False"

text \<open>A value inside a template literal: \<open>undefined\<close> and \<open>null\<close> print as the words.\<close>

fun tmpl :: "opt_str \<Rightarrow> string" where
  "tmpl Undefined = ''undefined''"
| "tmpl Null = ''null''"
| "tmpl (Str s) = s"

text \<open>\<open>a || "literal"\<close> on such a field.\<close>

fun or_lit :: "opt_str \<Rightarrow> string \<Rightarrow> string" where
  "or_lit (Str s) d = (if s \<noteq> [] then s else d)"
| "or_lit _ d = d"

text \<open>A number inside a template literal.\<close>

fun string_of_nat :: "nat \<Rightarrow> string" where
  "string_of_nat n =
     (if n < 10 then [''0123456789'' ! n]
      else string_of_nat (n div 10) @ [''0123456789'' ! (n mod 10)])"

datatype log_level = Info | Warn | Error | Debug

type_synonym log_entry = "log_level \<times> string"

text \<open>
  The contact record as the adapters read it. \<open>tags\<close> is the array when the field holds
  one; \<open>customFields\<close> is the list of the object's entries, with the values already
  converted by \<open>String(value)\<close>, when the field holds an object (\<open>None\<close>: the field is
  \<open>undefined\<close> or \<open>null\<close>).
\<close>

record contact =
  contactId :: opt_str
  fullName :: opt_str
  emailAddress :: opt_str
  phoneNumber :: opt_str
  company :: opt_str
  addressLine1 :: opt_str
  addressLine2 :: opt_str
  city :: opt_str
  stateProvince :: opt_str
  postalCode :: opt_str
  country :: opt_str
  jobTitle :: opt_str
  department :: opt_str
  preferredContactMethod :: opt_str
  notes_text :: opt_str
  tags :: "string list option"
  customFields :: "(string \<times> string) list option"


section \<open>Version-control adapter (giteaService.js)\<close>

text \<open>
  The requests that \<open>GiteaService\<close> sends through its axios client. Owner and repository
  name are fixed per service instance and left out of the requests.
\<close>

datatype gitea_request =
    GetRepo
  | PostUserRepos
  | GetRef string
  | PostBranches string string
  | GetContents string string
  | PutContents string string string string "string option"
  | PostContents string string string string
  | PostPulls string string string string
  | PostMerge nat string
  | DeleteBranch string

text \<open>
  The part of \<open>response.data\<close> that the service reads. \<open>RefList\<close> holds
  \<open>data[i].object.sha\<close> of the returned array; \<open>Contents\<close> holds whether
  \<open>data.status === 404\<close>, \<open>data.content\<close> and \<open>data.sha\<close>; \<open>PullInfo\<close> holds
  \<open>data.number\<close> and \<open>data.html_url\<close>.
\<close>

datatype gitea_data =
    RefList "string list"
  | Contents bool "string option" "string option"
  | PullInfo nat string
  | OtherData

type_synonym gitea_response = "js_error + gitea_data"

text \<open>
  The remote host is an arbitrary state machine: it answers a request from its state and
  moves to a new state. The world also records the requests issued and the log lines
  written by the service methods themselves.
\<close>

type_synonym 's gitea_api = "'s \<Rightarrow> gitea_request \<Rightarrow> gitea_response \<times> 's"

record 's gitea_world =
  host :: 's
  calls :: "gitea_request list"
  logs :: "log_entry list"

definition client_request ::
  "'s gitea_api \<Rightarrow> gitea_request \<Rightarrow> 's gitea_world \<Rightarrow> gitea_response \<times> 's gitea_world" where
  "client_request api req w =
     (case api (host w) req of
        (resp, h) \<Rightarrow> (resp, w\<lparr>host := h, calls := calls w @ [req]\<rparr>))"

definition logger :: "log_level \<Rightarrow> string \<Rightarrow> 's gitea_world \<Rightarrow> 's gitea_world" where
  "logger lvl msg w = w\<lparr>logs := logs w @ [(lvl, msg)]\<rparr>"

definition ensureRepository ::
  "'s gitea_api \<Rightarrow> 's gitea_world \<Rightarrow> (js_error + bool) \<times> 's gitea_world" where
  "ensureRepository api w =
     (case client_request api GetRepo w of
        (Inr d, w1) \<Rightarrow> (Inr True, logger Info ''Repository exists'' w1)
      | (Inl error, w1) \<Rightarrow>
          if response_status error = Some 404 then
            (case client_request api PostUserRepos (logger Info ''Creating repository'' w1) of
               (Inr d, w2) \<Rightarrow> (Inr True, logger Info ''Repository created successfully'' w2)
             | (Inl createError, w2) \<Rightarrow>
                 (Inl createError, logger Error ''Failed to create repository:'' w2))
          else (Inl error, logger Error ''Error checking repository:'' w1))"

text \<open>
  The body of the \<open>try\<close> block of \<open>createBranch\<close>. Reading \<open>baseRef.data[0].object.sha\<close>
  throws a TypeError when the data is not a non-empty array of refs.
\<close>

definition createBranch_try ::
  "'s gitea_api \<Rightarrow> string \<Rightarrow> string \<Rightarrow> 's gitea_world \<Rightarrow> (js_error + string) \<times> 's gitea_world" where
  "createBranch_try api branchName baseBranch w =
     (case client_request api (GetRef baseBranch) w of
        (Inl error, w1) \<Rightarrow> (Inl error, w1)
      | (Inr baseRef, w1) \<Rightarrow>
          (let w2 = logger Info (''Base branch '' @ baseBranch @ '' data:'') w1 in
           case baseRef of
             RefList (baseSha # rest) \<Rightarrow>
               (let w3 = logger Info (''Base branch '' @ baseBranch @ '' SHA: '' @ baseSha) w2 in
                case client_request api (PostBranches branchName baseSha) w3 of
                  (Inl error, w4) \<Rightarrow> (Inl error, w4)
                | (Inr d, w4) \<Rightarrow>
                    (Inr branchName,
                     logger Info (''Branch '' @ branchName @ '' created successfully'') w4))
           | _ \<Rightarrow> (Inl (TypeError ''Cannot read properties of undefined''), w2)))"

definition createBranch ::
  "'s gitea_api \<Rightarrow> string \<Rightarrow> string \<Rightarrow> 's gitea_world \<Rightarrow> (js_error + string) \<times> 's gitea_world" where
  "createBranch api branchName baseBranch w =
     (case createBranch_try api branchName baseBranch w of
        (Inr b, w1) \<Rightarrow> (Inr b, w1)
      | (Inl error, w1) \<Rightarrow>
          if response_status error = Some 422 then
            (Inr branchName, logger Warn (''Branch '' @ branchName @ '' already exists'') w1)
          else
            (Inl error, logger Error (''Failed to create branch '' @ branchName @ '':'') w1))"

text \<open>
  \<open>getFileContent\<close> returns \<open>null\<close> (here \<open>None\<close>) for a missing file and otherwise the
  file's content, sha and size; only the sha is read by the callers modelled here.
  Decoding \<open>data.content\<close> throws a TypeError inside the \<open>try\<close> when it is undefined.
\<close>

definition getFileContent ::
  "'s gitea_api \<Rightarrow> string \<Rightarrow> string \<Rightarrow> 's gitea_world \<Rightarrow>
     (js_error + (string \<times> string option) option) \<times> 's gitea_world" where
  "getFileContent api filePath branch w =
     (case client_request api (GetContents filePath branch) w of
        (Inl error, w1) \<Rightarrow>
          if response_status error = Some 404 then (Inr None, w1)
          else (Inl error,
                logger Error (''Failed to get file content for '' @ filePath @ '':'') w1)
      | (Inr (Contents is404 content sha), w1) \<Rightarrow>
          if is404 then
            (Inr None,
             logger Info (''File '' @ filePath @ '' not found in branch '' @ branch) w1)
          else (case content of
                  Some c \<Rightarrow> (Inr (Some (c, sha)), w1)
                | None \<Rightarrow>
                    (Inl (TypeError ''The first argument must be of type string''),
                     logger Error (''Failed to get file content for '' @ filePath @ '':'') w1))
      | (Inr d, w1) \<Rightarrow>
          (Inl (TypeError ''The first argument must be of type string''),
           logger Error (''Failed to get file content for '' @ filePath @ '':'') w1))"

definition commitFile ::
  "'s gitea_api \<Rightarrow> string \<Rightarrow> string \<Rightarrow> string \<Rightarrow> string \<Rightarrow> 's gitea_world \<Rightarrow>
     (js_error + gitea_data) \<times> 's gitea_world" where
  "commitFile api filePath content msg branch w =
     (case getFileContent api filePath branch w of
        (Inl error, w1) \<Rightarrow>
          (Inl error, logger Error (''Failed to commit file '' @ filePath @ '':'') w1)
      | (Inr (Some (c, sha)), w1) \<Rightarrow>
          (case client_request api (PutContents filePath msg content branch sha) w1 of
             (Inl error, w2) \<Rightarrow>
               (Inl error, logger Error (''Failed to commit file '' @ filePath @ '':'') w2)
           | (Inr d, w2) \<Rightarrow>
               (Inr d,
                logger Info (''File '' @ filePath @ '' committed successfully to branch '' @ branch)
                  (logger Info
                     (''File '' @ filePath @ '' updated successfully in branch '' @ branch) w2)))
      | (Inr None, w1) \<Rightarrow>
          (case client_request api (PostContents filePath msg content branch) w1 of
             (Inl error, w2) \<Rightarrow>
               (Inl error, logger Error (''Failed to commit file '' @ filePath @ '':'') w2)
           | (Inr d, w2) \<Rightarrow>
               (Inr d,
                logger Info (''File '' @ filePath @ '' committed successfully to branch '' @ branch)
                  (logger Info
                     (''File '' @ filePath @ '' created successfully in branch '' @ branch) w2))))"

text \<open>
  \<open>createPullRequest\<close> logs \<open>response.data.html_url\<close> and returns \<open>response.data\<close>; a
  response without that field is logged as \<open>undefined\<close> and returned as it is.
\<close>

definition createPullRequest ::
  "'s gitea_api \<Rightarrow> string \<Rightarrow> string \<Rightarrow> string \<Rightarrow> string \<Rightarrow> 's gitea_world \<Rightarrow>
     (js_error + gitea_data) \<times> 's gitea_world" where
  "createPullRequest api title head base body w =
     (case client_request api (PostPulls title head base body) w of
        (Inl error, w1) \<Rightarrow> (Inl error, logger Error ''Failed to create pull request:'' w1)
      | (Inr d, w1) \<Rightarrow>
          (Inr d,
           logger Info
             (''Pull request created: '' @
                (case d of PullInfo n url \<Rightarrow> url | _ \<Rightarrow> ''undefined'')) w1))"


definition deleteBranch ::
  "'s gitea_api \<Rightarrow> string \<Rightarrow> 's gitea_world \<Rightarrow> (js_error + unit) \<times> 's gitea_world" where
  "deleteBranch api branchName w =
     (case client_request api (DeleteBranch branchName) w of
        (Inl error, w1) \<Rightarrow>
          (Inl error, logger Error (''Failed to delete branch '' @ branchName @ '':'') w1)
      | (Inr d, w1) \<Rightarrow>
          (Inr (), logger Info (''Branch '' @ branchName @ '' deleted successfully'') w1))"

text \<open>
  \<open>generateBranchName\<close>: the ISO timestamp with \<open>:\<close> and \<open>.\<close> replaced by \<open>-\<close>, the
  identifier (or a random string when it is empty or undefined), lower-cased (the letters
  A to Z; other characters are kept). The clock and the random source are inputs.
\<close>

definition toLowerCase :: "string \<Rightarrow> string" where
  "toLowerCase s =
     map (\<lambda>c. case map_of (zip ''ABCDEFGHIJKLMNOPQRSTUVWXYZ'' ''abcdefghijklmnopqrstuvwxyz'') c of
                 Some d \<Rightarrow> d
               | None \<Rightarrow> c) s"

text \<open>\<open>contactData.contactId?.substr(0, 8)\<close>.\<close>

fun substr8 :: "opt_str \<Rightarrow> opt_str" where
  "substr8 (Str s) = Str (take 8 s)"
| "substr8 _ = Undefined"

definition generateBranchName :: "string \<Rightarrow> string \<Rightarrow> string \<Rightarrow> opt_str \<Rightarrow> string" where
  "generateBranchName nowIso random type identifier =
     (let timestamp = map (\<lambda>c. if c = CHR '':'' \<or> c = CHR ''.'' then CHR ''-'' else c) nowIso;
          ident = or_lit identifier random
      in toLowerCase (type @ ''-'' @ ident @ ''-'' @ timestamp))"

text \<open>
  What \<open>commitCdmData\<close> takes from outside the program: the clock readings, the random
  strings and the JSON renderings of the two files (\<open>JSON.stringify\<close> of the contact and
  of the metadata, the latter depending on the submission id and the branch). The
  caller's \<open>metadata\<close> argument enters only the second rendering.
\<close>

record commit_env =
  branch_now :: string
  branch_random :: string
  submission_stamp :: string
  processed_at :: string
  contact_json :: "contact \<Rightarrow> string"
  metadata_json :: "string \<Rightarrow> string \<Rightarrow> string"

record commit_result =
  cr_branchName :: string
  cr_pullRequest :: gitea_data
  cr_submissionId :: string
  cr_contactId :: opt_str
  cr_dataFilePath :: string
  cr_metadataFilePath :: string

definition nl :: string where
  "nl = [CHR 0x0A]"

definition check_mark :: string where
  "check_mark = [CHR 0xE2, CHR 0x9C, CHR 0x85]"

definition pull_request_body :: "contact \<Rightarrow> string \<Rightarrow> string \<Rightarrow> string" where
  "pull_request_body contactData submissionId processedAt =
     ''## Contact Information'' @ nl @
     ''**Contact ID:** '' @ tmpl (contactId contactData) @ nl @
     ''**Name:** '' @ tmpl (fullName contactData) @ nl @
     ''**Email:** '' @ tmpl (emailAddress contactData) @ nl @
     ''**Company:** '' @
        or_lit (company contactData) ''N/A'' @ nl @
     nl @
     ''## CDM Compliance'' @ nl @
     ''- '' @ check_mark @ '' Schema validation passed'' @ nl @
     ''- '' @ check_mark @ '' Required fields present'' @ nl @
     ''- '' @ check_mark @ '' Data format validated'' @ nl @
     nl @
     ''## Submission Details'' @ nl @
     ''- **Submission ID:** '' @ submissionId @ nl @
     ''- **Processed At:** '' @ processedAt @ nl @
     ''- **Source:** Grafana Form Submission'' @ nl @
     nl @
     ''Please review and approve to merge this contact data into the main branch.''"

text \<open>The \<open>try\<close> block of \<open>commitCdmData\<close>: each \<open>await\<close> that rejects leaves the block.\<close>

definition commit_steps ::
  "'s gitea_api \<Rightarrow> commit_env \<Rightarrow> string \<Rightarrow> contact \<Rightarrow> 's gitea_world \<Rightarrow>
     (js_error + commit_result) \<times> 's gitea_world" where
  "commit_steps api env branchName contactData w =
     (case ensureRepository api w of
        (Inl error, w1) \<Rightarrow> (Inl error, w1)
      | (Inr ok, w1) \<Rightarrow>
     (case createBranch api branchName ''main'' w1 of
        (Inl error, w2) \<Rightarrow> (Inl error, w2)
      | (Inr b, w2) \<Rightarrow>
     (let submissionId = submission_stamp env;
          dataFilePath = ''data/contacts/'' @ tmpl (contactId contactData) @ ''.json'';
          metadataFilePath = ''metadata/submissions/'' @ submissionId @ ''.json''
      in
     (case commitFile api dataFilePath (contact_json env contactData)
             (''Add contact data: '' @ tmpl (fullName contactData)) branchName w2 of
        (Inl error, w3) \<Rightarrow> (Inl error, w3)
      | (Inr d1, w3) \<Rightarrow>
     (case commitFile api metadataFilePath (metadata_json env submissionId branchName)
             (''Add metadata for submission: '' @ submissionId) branchName w3 of
        (Inl error, w4) \<Rightarrow> (Inl error, w4)
      | (Inr d2, w4) \<Rightarrow>
     (case createPullRequest api (''Add Contact: '' @ tmpl (fullName contactData)) branchName
             ''main'' (pull_request_body contactData submissionId (processed_at env)) w4 of
        (Inl error, w5) \<Rightarrow> (Inl error, w5)
      | (Inr pullRequest, w5) \<Rightarrow>
          (Inr \<lparr>cr_branchName = branchName, cr_pullRequest = pullRequest,
                cr_submissionId = submissionId, cr_contactId = contactId contactData,
                cr_dataFilePath = dataFilePath, cr_metadataFilePath = metadataFilePath\<rparr>,
           w5)))))))"

text \<open>
  \<open>commitCdmData\<close>: the branch name is computed before the \<open>try\<close>; the \<open>catch\<close> logs,
  tries \<open>deleteBranch\<close> inside its own \<open>try\<close>/\<open>catch\<close>, and throws the error it caught.
\<close>

definition commitCdmData ::
  "'s gitea_api \<Rightarrow> commit_env \<Rightarrow> contact \<Rightarrow> 's gitea_world \<Rightarrow>
     (js_error + commit_result) \<times> 's gitea_world" where
  "commitCdmData api env contactData w =
     (let branchName = generateBranchName (branch_now env) (branch_random env) ''contact''
                         (substr8 (contactId contactData))
      in case commit_steps api env branchName contactData w of
           (Inr r, w1) \<Rightarrow> (Inr r, w1)
         | (Inl error, w1) \<Rightarrow>
             (case deleteBranch api branchName (logger Error ''Failed to commit CDM data:'' w1) of
                (Inr u, w2) \<Rightarrow> (Inl error, w2)
              | (Inl cleanupError, w2) \<Rightarrow>
                  (Inl error, logger Error ''Failed to cleanup branch:'' w2)))"

text \<open>
  A small host used to run the adapter on concrete inputs: its state is the list of
  branch names; it refuses to create a branch that exists with status 422 (the status
  \<open>createBranch\<close> reads as "already exists"), refuses to delete any branch with status
  500, and has no repository access otherwise.
\<close>

fun branch_host :: "string list gitea_api" where
  "branch_host bs (GetRef base) =
     (if base \<in> set bs then (Inr (RefList [''sha-of-'' @ base]), bs)
      else (Inl (HttpError 404 ''ref not found''), bs))"
| "branch_host bs (PostBranches name ref) =
     (if name \<in> set bs then (Inl (HttpError 422 ''branch already exists''), bs)
      else (Inr OtherData, bs @ [name]))"
| "branch_host bs (DeleteBranch name) = (Inl (HttpError 500 ''cannot delete''), bs)"
| "branch_host bs req = (Inl (HttpError 403 ''forbidden''), bs)"


definition world0 :: "string list \<Rightarrow> string list gitea_world" where
  "world0 bs = \<lparr>host = bs, calls = [], logs = []\<rparr>"

definition env0 :: commit_env where
  "env0 = \<lparr>branch_now = ''2025-01-02T03:04:05.678Z'', branch_random = ''k3j9x0q1z'',
           submission_stamp = ''1735787045678-abcdefghi'',
           processed_at = ''2025-01-02T03:04:05.679Z'',
           contact_json = (\<lambda>c. ''{}''), metadata_json = (\<lambda>s b. ''{}'')\<rparr>"

definition contact0 :: contact where
  "contact0 = \<lparr>contactId = Str ''1B9D6BCD-BBFD-4B2D'', fullName = Str ''Jane Roe'',
               emailAddress = Str ''jane@x.com'', phoneNumber = Undefined, company = Str ''Acme'',
               addressLine1 = Undefined, addressLine2 = Undefined, city = Undefined,
               stateProvince = Undefined, postalCode = Undefined, country = Undefined,
               jobTitle = Undefined, department = Undefined,
               preferredContactMethod = Undefined, notes_text = Undefined, tags = None,
               customFields = None\<rparr>"

section \<open>Index adapter (openSearchService.js)\<close>

text \<open>JSON-like values as the service passes them around.\<close>

datatype jsval =
    JUndefined
  | JNull
  | JBool bool
  | JNum int
  | JStr string
  | JArr "jsval list"
  | JObj "(string \<times> jsval) list"
  | JDate string

fun of_opt_str :: "opt_str \<Rightarrow> jsval" where
  "of_opt_str Undefined = JUndefined"
| "of_opt_str Null = JNull"
| "of_opt_str (Str s) = JStr s"

type_synonym doc = "string \<rightharpoonup> jsval"

text \<open>A request body is sent as JSON, which drops the fields that hold \<open>undefined\<close>.\<close>

definition json_body :: "doc \<Rightarrow> doc" where
  "json_body d = (\<lambda>k. if d k = Some JUndefined then None else d k)"

text \<open>
  The search store as the service uses it. An index holds the documents stored under an
  id and the documents stored without one (the store gives those an id that the service
  never reads). The store is reached through a client whose calls can be rejected before
  they reach it (\<open>faults\<close>: the outcome of the coming calls, in order; an exhausted list
  means no fault) and whose cluster health answers are scripted the same way
  (\<open>health_script\<close>; an exhausted list answers \<open>green\<close>). \<open>os_calls\<close> records the client
  calls made. A client call is one call of a method of the client library by the
  service; what the library does below it to deliver the call (connections, its
  transport settings such as \<open>maxRetries\<close>) is not modelled.
\<close>

record os_index =
  by_id :: "string \<rightharpoonup> doc"
  unnamed :: "doc list"

datatype os_call =
    ClusterHealth
  | IndicesExists string
  | IndicesDelete string
  | IndicesCreate string
  | Bulk string nat
  | IndexDoc string opt_str
  | UpdateDoc string opt_str
  | GetDoc string opt_str

record opensearch =
  indices :: "string \<rightharpoonup> os_index"
  faults :: "js_error option list"
  health_script :: "string list"
  os_calls :: "os_call list"

definition empty_index :: os_index where
  "empty_index = \<lparr>by_id = Map.empty, unnamed = []\<rparr>"

text \<open>Every client call is recorded and takes the next scripted fault, if any.\<close>

definition client_call :: "os_call \<Rightarrow> opensearch \<Rightarrow> js_error option \<times> opensearch" where
  "client_call c os =
     (case faults os of
        [] \<Rightarrow> (None, os\<lparr>os_calls := os_calls os @ [c]\<rparr>)
      | f # fs \<Rightarrow> (f, os\<lparr>faults := fs, os_calls := os_calls os @ [c]\<rparr>))"

definition cluster_health :: "opensearch \<Rightarrow> (js_error + string) \<times> opensearch" where
  "cluster_health os =
     (case client_call ClusterHealth os of
        (Some e, os1) \<Rightarrow> (Inl e, os1)
      | (None, os1) \<Rightarrow>
          (case health_script os1 of
             [] \<Rightarrow> (Inr ''green'', os1)
           | s # ss \<Rightarrow> (Inr s, os1\<lparr>health_script := ss\<rparr>)))"

definition indices_exists :: "string \<Rightarrow> opensearch \<Rightarrow> (js_error + bool) \<times> opensearch" where
  "indices_exists name os =
     (case client_call (IndicesExists name) os of
        (Some e, os1) \<Rightarrow> (Inl e, os1)
      | (None, os1) \<Rightarrow> (Inr (indices os1 name \<noteq> None), os1))"

definition indices_delete :: "string \<Rightarrow> opensearch \<Rightarrow> (js_error + unit) \<times> opensearch" where
  "indices_delete name os =
     (case client_call (IndicesDelete name) os of
        (Some e, os1) \<Rightarrow> (Inl e, os1)
      | (None, os1) \<Rightarrow>
          (case indices os1 name of
             None \<Rightarrow> (Inl (HttpError 404 ''index_not_found_exception''), os1)
           | Some ix \<Rightarrow> (Inr (), os1\<lparr>indices := (indices os1)(name := None)\<rparr>)))"

definition indices_create :: "string \<Rightarrow> opensearch \<Rightarrow> (js_error + unit) \<times> opensearch" where
  "indices_create name os =
     (case client_call (IndicesCreate name) os of
        (Some e, os1) \<Rightarrow> (Inl e, os1)
      | (None, os1) \<Rightarrow>
          (case indices os1 name of
             Some ix \<Rightarrow> (Inl (HttpError 400 ''resource_already_exists_exception''), os1)
           | None \<Rightarrow> (Inr (), os1\<lparr>indices := (indices os1)(name \<mapsto> empty_index)\<rparr>)))"

text \<open>Writing to an index that does not exist creates it.\<close>

definition index_or_new :: "opensearch \<Rightarrow> string \<Rightarrow> os_index" where
  "index_or_new os name = (case indices os name of None \<Rightarrow> empty_index | Some ix \<Rightarrow> ix)"

definition client_bulk :: "string \<Rightarrow> doc list \<Rightarrow> opensearch \<Rightarrow> (js_error + unit) \<times> opensearch" where
  "client_bulk name rows os =
     (case client_call (Bulk name (length rows)) os of
        (Some e, os1) \<Rightarrow> (Inl e, os1)
      | (None, os1) \<Rightarrow>
          (let ix = index_or_new os1 name
           in (Inr (), os1\<lparr>indices := (indices os1)(name \<mapsto> ix\<lparr>unnamed := unnamed ix @ rows\<rparr>)\<rparr>)))"

definition client_index ::
  "string \<Rightarrow> opt_str \<Rightarrow> doc \<Rightarrow> opensearch \<Rightarrow> (js_error + unit) \<times> opensearch" where
  "client_index name ident body os =
     (case client_call (IndexDoc name ident) os of
        (Some e, os1) \<Rightarrow> (Inl e, os1)
      | (None, os1) \<Rightarrow>
          (let ix = index_or_new os1 name
           in case ident of
                Str i \<Rightarrow>
                  (Inr (), os1\<lparr>indices := (indices os1)
                                    (name \<mapsto> ix\<lparr>by_id := (by_id ix)(i \<mapsto> json_body body)\<rparr>)\<rparr>)
              | _ \<Rightarrow>
                  (Inr (), os1\<lparr>indices := (indices os1)
                                    (name \<mapsto> ix\<lparr>unnamed := unnamed ix @ [json_body body]\<rparr>)\<rparr>)))"

text \<open>
  A partial update merges the fields sent into the stored document and fails when there
  is no such document. The client refuses a call without an id before it sends anything.
  The merge is modelled at the top level of the document: a field that is sent replaces
  the stored one.
\<close>

definition client_update ::
  "string \<Rightarrow> opt_str \<Rightarrow> doc \<Rightarrow> opensearch \<Rightarrow> (js_error + unit) \<times> opensearch" where
  "client_update name ident partial os =
     (case ident of
        Str i \<Rightarrow>
          (case client_call (UpdateDoc name ident) os of
             (Some e, os1) \<Rightarrow> (Inl e, os1)
           | (None, os1) \<Rightarrow>
               (case indices os1 name of
                  None \<Rightarrow> (Inl (HttpError 404 ''index_not_found_exception''), os1)
                | Some ix \<Rightarrow>
                    (case by_id ix i of
                       None \<Rightarrow> (Inl (HttpError 404 ''document_missing_exception''), os1)
                     | Some old \<Rightarrow>
                         (Inr (), os1\<lparr>indices := (indices os1)
                                    (name \<mapsto> ix\<lparr>by_id := (by_id ix)(i \<mapsto> old ++ json_body partial)\<rparr>)\<rparr>))))
      | _ \<Rightarrow> (Inl (PlainError ''Missing required parameter: id''), os))"

text \<open>The index names of the service (environment variables with defaults).\<close>

record os_config =
  contactsIndex :: string
  referenceIndex :: string
  notificationsIndex :: string

definition default_config :: os_config where
  "default_config = \<lparr>contactsIndex = ''contacts'', referenceIndex = ''reference-data'',
                      notificationsIndex = ''notifications''\<rparr>"

text \<open>
  \<open>updateContact\<close>: the partial document is the caller's fields with \<open>modifiedOn\<close> set
  last to the time of the call; a rejected update is logged and thrown again.
\<close>

definition updateContact ::
  "os_config \<Rightarrow> string \<Rightarrow> opt_str \<Rightarrow> doc \<Rightarrow> opensearch \<Rightarrow> (js_error + unit) \<times> opensearch" where
  "updateContact cfg now contactId' updateData os =
     client_update (contactsIndex cfg) contactId' (updateData(''modifiedOn'' \<mapsto> JStr now)) os"


definition ResetReferenceIndices :: "os_config \<Rightarrow> opensearch \<Rightarrow> (js_error + unit) \<times> opensearch" where
  "ResetReferenceIndices cfg os =
     (case indices_exists (referenceIndex cfg) os of
        (Inl e, os1) \<Rightarrow> (Inl e, os1)
      | (Inr referencesExists, os1) \<Rightarrow>
          if referencesExists then indices_delete (referenceIndex cfg) os1
          else (Inr (), os1))"

definition ResetContactIndices :: "os_config \<Rightarrow> opensearch \<Rightarrow> (js_error + unit) \<times> opensearch" where
  "ResetContactIndices cfg os =
     (case indices_exists (contactsIndex cfg) os of
        (Inl e, os1) \<Rightarrow> (Inl e, os1)
      | (Inr contactsExists, os1) \<Rightarrow>
          if contactsExists then indices_delete (contactsIndex cfg) os1
          else (Inr (), os1))"

text \<open>
  The static lookup rows of \<open>seedReferenceData\<close>, in the order of the source. Labels are
  given as their UTF-8 bytes; \<open>r_country\<close> is \<open>metadata.country\<close> where the row has it.
\<close>

record ref_row =
  r_type :: string
  r_category :: string
  r_value :: string
  r_label :: string
  r_country :: "string option"
  r_sortOrder :: int

definition referenceData :: "ref_row list" where
  "referenceData = [
    \<lparr>r_type = ''country'', r_category = ''geography'', r_value = ''MA'',
      r_label = ''Morocco'',
      r_country = None, r_sortOrder = 1\<rparr>,
    \<lparr>r_type = ''country'', r_category = ''geography'', r_value = ''US'',
      r_label = ''United States'',
      r_country = None, r_sortOrder = 2\<rparr>,
    \<lparr>r_type = ''country'', r_category = ''geography'', r_value = ''CA'',
      r_label = ''Canada'',
      r_country = None, r_sortOrder = 3\<rparr>,
    \<lparr>r_type = ''country'', r_category = ''geography'', r_value = ''UK'',
      r_label = ''United Kingdom'',
      r_country = None, r_sortOrder = 4\<rparr>,
    \<lparr>r_type = ''country'', r_category = ''geography'', r_value = ''FR'',
      r_label = ''France'',
      r_country = None, r_sortOrder = 5\<rparr>,
    \<lparr>r_type = ''country'', r_category = ''geography'', r_value = ''DE'',
      r_label = ''Germany'',
      r_country = None, r_sortOrder = 6\<rparr>,
    \<lparr>r_type = ''state'', r_category = ''geography'', r_value = ''MA-01'',
      r_label = (''R'' @ [CHR 0xC3, CHR 0xA9] @ ''gion de Tanger '' @ [CHR 0xE2, CHR 0x80, CHR 0x93] @ '' T'' @ [CHR 0xC3, CHR 0xA9] @ ''touan''),
      r_country = (Some ''MA''), r_sortOrder = 1\<rparr>,
    \<lparr>r_type = ''state'', r_category = ''geography'', r_value = ''MA-02'',
      r_label = (''R'' @ [CHR 0xC3, CHR 0xA9] @ ''gion de l'' @ [CHR 0xE2, CHR 0x80, CHR 0x99] @ ''Oriental et du Rif''),
      r_country = (Some ''MA''), r_sortOrder = 2\<rparr>,
    \<lparr>r_type = ''state'', r_category = ''geography'', r_value = ''MA-03'',
      r_label = (''R'' @ [CHR 0xC3, CHR 0xA9] @ ''gion de F'' @ [CHR 0xC3, CHR 0xA8] @ ''s '' @ [CHR 0xE2, CHR 0x80, CHR 0x93] @ '' Mekn'' @ [CHR 0xC3, CHR 0xA8] @ ''s''),
      r_country = (Some ''MA''), r_sortOrder = 3\<rparr>,
    \<lparr>r_type = ''state'', r_category = ''geography'', r_value = ''MA-04'',
      r_label = (''R'' @ [CHR 0xC3, CHR 0xA9] @ ''gion de Rabat '' @ [CHR 0xE2, CHR 0x80, CHR 0x93] @ '' Sal'' @ [CHR 0xC3, CHR 0xA9] @ '' '' @ [CHR 0xE2, CHR 0x80, CHR 0x93] @ '' K'' @ [CHR 0xC3, CHR 0xA9] @ ''nitra''),
      r_country = (Some ''MA''), r_sortOrder = 4\<rparr>,
    \<lparr>r_type = ''state'', r_category = ''geography'', r_value = ''MA-05'',
      r_label = (''R'' @ [CHR 0xC3, CHR 0xA9] @ ''gion de B'' @ [CHR 0xC3, CHR 0xA9] @ ''ni Mellal '' @ [CHR 0xE2, CHR 0x80, CHR 0x93] @ '' Kh'' @ [CHR 0xC3, CHR 0xA9] @ ''nifra''),
      r_country = (Some ''MA''), r_sortOrder = 5\<rparr>,
    \<lparr>r_type = ''state'', r_category = ''geography'', r_value = ''MA-06'',
      r_label = (''R'' @ [CHR 0xC3, CHR 0xA9] @ ''gion de Casablanca '' @ [CHR 0xE2, CHR 0x80, CHR 0x93] @ '' Settat''),
      r_country = (Some ''MA''), r_sortOrder = 6\<rparr>,
    \<lparr>r_type = ''state'', r_category = ''geography'', r_value = ''MA-07'',
      r_label = (''R'' @ [CHR 0xC3, CHR 0xA9] @ ''gion de Marrakech '' @ [CHR 0xE2, CHR 0x80, CHR 0x93] @ '' Safi''),
      r_country = (Some ''MA''), r_sortOrder = 7\<rparr>,
    \<lparr>r_type = ''state'', r_category = ''geography'', r_value = ''MA-08'',
      r_label = (''R'' @ [CHR 0xC3, CHR 0xA9] @ ''gion de Dara'' @ [CHR 0xC3, CHR 0xA2] @ '' '' @ [CHR 0xE2, CHR 0x80, CHR 0x93] @ '' Tafilalet''),
      r_country = (Some ''MA''), r_sortOrder = 8\<rparr>,
    \<lparr>r_type = ''state'', r_category = ''geography'', r_value = ''MA-09'',
      r_label = (''R'' @ [CHR 0xC3, CHR 0xA9] @ ''gion de Souss '' @ [CHR 0xE2, CHR 0x80, CHR 0x93] @ '' Massa''),
      r_country = (Some ''MA''), r_sortOrder = 9\<rparr>,
    \<lparr>r_type = ''state'', r_category = ''geography'', r_value = ''MA-10'',
      r_label = (''R'' @ [CHR 0xC3, CHR 0xA9] @ ''gion de Guelmime '' @ [CHR 0xE2, CHR 0x80, CHR 0x93] @ '' Oued Noun''),
      r_country = (Some ''MA''), r_sortOrder = 10\<rparr>,
    \<lparr>r_type = ''state'', r_category = ''geography'', r_value = ''MA-11'',
      r_label = (''R'' @ [CHR 0xC3, CHR 0xA9] @ ''gion de La'' @ [CHR 0xC3, CHR 0xA2] @ ''youne '' @ [CHR 0xE2, CHR 0x80, CHR 0x93] @ '' Sakia al Hamra''),
      r_country = (Some ''MA''), r_sortOrder = 11\<rparr>,
    \<lparr>r_type = ''state'', r_category = ''geography'', r_value = ''MA-12'',
      r_label = (''R'' @ [CHR 0xC3, CHR 0xA9] @ ''gion de Ed Dakhla '' @ [CHR 0xE2, CHR 0x80, CHR 0x93] @ '' Oued Dahab''),
      r_country = (Some ''MA''), r_sortOrder = 12\<rparr>,
    \<lparr>r_type = ''state'', r_category = ''geography'', r_value = ''CA'',
      r_label = ''California'',
      r_country = (Some ''US''), r_sortOrder = 1\<rparr>,
    \<lparr>r_type = ''state'', r_category = ''geography'', r_value = ''NY'',
      r_label = ''New York'',
      r_country = (Some ''US''), r_sortOrder = 2\<rparr>,
    \<lparr>r_type = ''state'', r_category = ''geography'', r_value = ''TX'',
      r_label = ''Texas'',
      r_country = (Some ''US''), r_sortOrder = 3\<rparr>,
    \<lparr>r_type = ''state'', r_category = ''geography'', r_value = ''FL'',
      r_label = ''Florida'',
      r_country = (Some ''US''), r_sortOrder = 4\<rparr>,
    \<lparr>r_type = ''contactMethod'', r_category = ''communication'', r_value = ''email'',
      r_label = ''Email'',
      r_country = None, r_sortOrder = 1\<rparr>,
    \<lparr>r_type = ''contactMethod'', r_category = ''communication'', r_value = ''phone'',
      r_label = ''Phone'',
      r_country = None, r_sortOrder = 2\<rparr>,
    \<lparr>r_type = ''contactMethod'', r_category = ''communication'', r_value = ''mail'',
      r_label = ''Mail'',
      r_country = None, r_sortOrder = 3\<rparr>,
    \<lparr>r_type = ''jobTitle'', r_category = ''professional'', r_value = ''CEO'',
      r_label = ''Chief Executive Officer'',
      r_country = None, r_sortOrder = 1\<rparr>,
    \<lparr>r_type = ''jobTitle'', r_category = ''professional'', r_value = ''CTO'',
      r_label = ''Chief Technology Officer'',
      r_country = None, r_sortOrder = 2\<rparr>,
    \<lparr>r_type = ''jobTitle'', r_category = ''professional'', r_value = ''Manager'',
      r_label = ''Manager'',
      r_country = None, r_sortOrder = 3\<rparr>,
    \<lparr>r_type = ''jobTitle'', r_category = ''professional'', r_value = ''Developer'',
      r_label = ''Software Developer'',
      r_country = None, r_sortOrder = 4\<rparr>,
    \<lparr>r_type = ''jobTitle'', r_category = ''professional'', r_value = ''Analyst'',
      r_label = ''Business Analyst'',
      r_country = None, r_sortOrder = 5\<rparr>,
    \<lparr>r_type = ''department'', r_category = ''organization'', r_value = ''IT'',
      r_label = ''Information Technology'',
      r_country = None, r_sortOrder = 1\<rparr>,
    \<lparr>r_type = ''department'', r_category = ''organization'', r_value = ''HR'',
      r_label = ''Human Resources'',
      r_country = None, r_sortOrder = 2\<rparr>,
    \<lparr>r_type = ''department'', r_category = ''organization'', r_value = ''Finance'',
      r_label = ''Finance'',
      r_country = None, r_sortOrder = 3\<rparr>,
    \<lparr>r_type = ''department'', r_category = ''organization'', r_value = ''Sales'',
      r_label = ''Sales'',
      r_country = None, r_sortOrder = 4\<rparr>,
    \<lparr>r_type = ''department'', r_category = ''organization'', r_value = ''Marketing'',
      r_label = ''Marketing'',
      r_country = None, r_sortOrder = 5\<rparr>,
    \<lparr>r_type = ''industry'', r_category = ''business'', r_value = ''Technology'',
      r_label = ''Technology'',
      r_country = None, r_sortOrder = 1\<rparr>,
    \<lparr>r_type = ''industry'', r_category = ''business'', r_value = ''Healthcare'',
      r_label = ''Healthcare'',
      r_country = None, r_sortOrder = 2\<rparr>,
    \<lparr>r_type = ''industry'', r_category = ''business'', r_value = ''Finance'',
      r_label = ''Finance'',
      r_country = None, r_sortOrder = 3\<rparr>,
    \<lparr>r_type = ''industry'', r_category = ''business'', r_value = ''Education'',
      r_label = ''Education'',
      r_country = None, r_sortOrder = 4\<rparr>,
    \<lparr>r_type = ''industry'', r_category = ''business'', r_value = ''Manufacturing'',
      r_label = ''Manufacturing'',
      r_country = None, r_sortOrder = 5\<rparr>]"

text \<open>
  The document indexed for a row: the row's fields, \<open>isActive: true\<close> and the two
  timestamps read from the clock when the row is prepared.
\<close>

definition seed_doc :: "string \<times> string \<Rightarrow> ref_row \<Rightarrow> doc" where
  "seed_doc stamps r =
     (let d = [''type'' \<mapsto> JStr (r_type r), ''category'' \<mapsto> JStr (r_category r),
               ''value'' \<mapsto> JStr (r_value r), ''label'' \<mapsto> JStr (r_label r),
               ''sortOrder'' \<mapsto> JNum (r_sortOrder r), ''isActive'' \<mapsto> JBool True,
               ''createdAt'' \<mapsto> JStr (fst stamps), ''updatedAt'' \<mapsto> JStr (snd stamps)]
      in case r_country r of
           None \<Rightarrow> d
         | Some c \<Rightarrow> d(''metadata'' \<mapsto> JObj [(''country'', JStr c)]))"

definition seed_docs :: "(nat \<Rightarrow> string \<times> string) \<Rightarrow> doc list" where
  "seed_docs clock = map (\<lambda>(i, r). seed_doc (clock i) r) (enumerate 0 referenceData)"

definition seedReferenceData ::
  "os_config \<Rightarrow> (nat \<Rightarrow> string \<times> string) \<Rightarrow> opensearch \<Rightarrow> (js_error + unit) \<times> opensearch" where
  "seedReferenceData cfg clock os = client_bulk (referenceIndex cfg) (seed_docs clock) os"

text \<open>
  \<open>ensureIndices\<close>: each of the three indices is created when the existence check says it
  is absent; the reference index is seeded right after it is created. Any rejected call
  is logged and thrown again. The field mappings sent with a creation are not modelled.
\<close>

definition ensure_index :: "string \<Rightarrow> opensearch \<Rightarrow> (js_error + bool) \<times> opensearch" where
  "ensure_index name os =
     (case indices_exists name os of
        (Inl e, os1) \<Rightarrow> (Inl e, os1)
      | (Inr ex, os1) \<Rightarrow>
          if \<not> ex then
            (case indices_create name os1 of
               (Inl e, os2) \<Rightarrow> (Inl e, os2)
             | (Inr u, os2) \<Rightarrow> (Inr True, os2))
          else (Inr False, os1))"

definition ensureIndices ::
  "os_config \<Rightarrow> (nat \<Rightarrow> string \<times> string) \<Rightarrow> opensearch \<Rightarrow> (js_error + unit) \<times> opensearch" where
  "ensureIndices cfg clock os =
     (case ensure_index (contactsIndex cfg) os of
        (Inl e, os1) \<Rightarrow> (Inl e, os1)
      | (Inr c1, os1) \<Rightarrow>
     (case ensure_index (referenceIndex cfg) os1 of
        (Inl e, os2) \<Rightarrow> (Inl e, os2)
      | (Inr created, os2) \<Rightarrow>
     (case (if created then seedReferenceData cfg clock os2 else (Inr (), os2)) of
        (Inl e, os3) \<Rightarrow> (Inl e, os3)
      | (Inr u, os3) \<Rightarrow>
     (case ensure_index (notificationsIndex cfg) os3 of
        (Inl e, os4) \<Rightarrow> (Inl e, os4)
      | (Inr c3, os4) \<Rightarrow> (Inr (), os4)))))"

text \<open>
  \<open>initialize\<close>: up to \<open>maxRetries\<close> attempts, each a health check followed (unless the
  cluster is red) by \<open>ResetReferenceIndices\<close> and \<open>ensureIndices\<close>; a failed attempt is
  followed by a wait of \<open>retryDelay\<close> milliseconds, except the last one, which throws.
  The waits are recorded in the list that the loop returns.
\<close>

definition os_maxRetries :: nat where
  "os_maxRetries = 5"

definition os_retryDelay :: nat where
  "os_retryDelay = 5000"

definition initialize_attempt ::
  "os_config \<Rightarrow> (nat \<Rightarrow> string \<times> string) \<Rightarrow> opensearch \<Rightarrow> (js_error + unit) \<times> opensearch" where
  "initialize_attempt cfg clock os =
     (case cluster_health os of
        (Inl e, os1) \<Rightarrow> (Inl e, os1)
      | (Inr status, os1) \<Rightarrow>
          if status \<noteq> ''red'' then
            (case ResetReferenceIndices cfg os1 of
               (Inl e, os2) \<Rightarrow> (Inl e, os2)
             | (Inr u, os2) \<Rightarrow> ensureIndices cfg clock os2)
          else (Inl (PlainError ''Cluster health is red''), os1))"

function initialize_loop ::
  "os_config \<Rightarrow> (nat \<Rightarrow> string \<times> string) \<Rightarrow> nat \<Rightarrow> nat list \<Rightarrow> opensearch \<Rightarrow>
     (js_error + unit) \<times> nat list \<times> opensearch" where
  "initialize_loop cfg clock retries waits os =
     (if retries < os_maxRetries then
        (case initialize_attempt cfg clock os of
           (Inr u, os1) \<Rightarrow> (Inr (), waits, os1)
         | (Inl error, os1) \<Rightarrow>
             if retries + 1 = os_maxRetries then
               (Inl (PlainError ''Failed to initialize OpenSearch after multiple retries''),
                waits, os1)
             else initialize_loop cfg clock (retries + 1) (waits @ [os_retryDelay]) os1)
      else (Inr (), waits, os))"
  by pat_completeness auto
termination
  by (relation "measure (\<lambda>(cfg, clock, retries, waits, os). os_maxRetries - retries)") auto

definition initialize ::
  "os_config \<Rightarrow> (nat \<Rightarrow> string \<times> string) \<Rightarrow> opensearch \<Rightarrow>
     (js_error + unit) \<times> nat list \<times> opensearch" where
  "initialize cfg clock os = initialize_loop cfg clock 0 [] os"

text \<open>A store and a clock for running the adapter on concrete inputs.\<close>

definition store0 :: opensearch where
  "store0 =
     \<lparr>indices =
        [''contacts'' \<mapsto>
           \<lparr>by_id = [''c1'' \<mapsto> [''fullName'' \<mapsto> JStr ''Jane Roe'',
                                 ''modifiedOn'' \<mapsto> JStr ''2024-12-31T00:00:00.000Z'']],
            unnamed = []\<rparr>,
         ''reference-data'' \<mapsto> \<lparr>by_id = Map.empty, unnamed = [[''type'' \<mapsto> JStr ''stale'']]\<rparr>],
      faults = [], health_script = [], os_calls = []\<rparr>"


section \<open>Notification emitter (notificationService.js)\<close>

record notification =
  n_type :: string
  n_title :: string
  n_message :: string
  n_metadata :: "(string \<times> jsval) list"

text \<open>The generated id and the timestamp of one \<open>sendNotification\<close> call.\<close>

record notif_env =
  notif_id :: string
  notif_timestamp :: string

datatype notif_result = NotifResult bool string

definition fullNotification :: "notif_env \<Rightarrow> notification \<Rightarrow> doc" where
  "fullNotification env n =
     [''id'' \<mapsto> JStr (notif_id env), ''type'' \<mapsto> JStr (n_type n), ''title'' \<mapsto> JStr (n_title n),
      ''message'' \<mapsto> JStr (n_message n), ''metadata'' \<mapsto> JObj (n_metadata n),
      ''timestamp'' \<mapsto> JStr (notif_timestamp env), ''status'' \<mapsto> JStr ''pending'',
      ''read'' \<mapsto> JBool False]"

text \<open>
  The only channel is the console, which logs and returns; \<open>Promise.allSettled\<close> over it
  gives one fulfilled result, so \<open>hasSuccess\<close> is true.
\<close>

definition console_results :: jsval where
  "console_results =
     JArr [JObj [(''status'', JStr ''fulfilled''),
                 (''value'', JObj [(''channel'', JStr ''console''), (''status'', JStr ''sent'')])]]"

text \<open>
  The \<open>catch\<close> block of \<open>sendNotification\<close>: it records the failure with one more update,
  which is awaited outside any \<open>try\<close>, so its rejection leaves \<open>sendNotification\<close>.
\<close>

definition sendNotification_catch ::
  "os_config \<Rightarrow> notif_env \<Rightarrow> js_error \<Rightarrow> opensearch \<Rightarrow> (js_error + notif_result) \<times> opensearch" where
  "sendNotification_catch cfg env error os =
     (case client_update (notificationsIndex cfg) (Str (notif_id env))
             [''status'' \<mapsto> JStr ''failed'', ''error'' \<mapsto> JStr (error_message error)] os of
        (Inl e, os1) \<Rightarrow> (Inl e, os1)
      | (Inr u, os1) \<Rightarrow> (Inr (NotifResult False (notif_id env)), os1))"

definition sendNotification ::
  "os_config \<Rightarrow> notif_env \<Rightarrow> notification \<Rightarrow> opensearch \<Rightarrow> (js_error + notif_result) \<times> opensearch" where
  "sendNotification cfg env n os =
     (case client_index (notificationsIndex cfg) (Str (notif_id env)) (fullNotification env n) os of
        (Inl error, os1) \<Rightarrow> sendNotification_catch cfg env error os1
      | (Inr u, os1) \<Rightarrow>
          (case client_update (notificationsIndex cfg) (Str (notif_id env))
                  [''status'' \<mapsto> JStr ''sent'', ''results'' \<mapsto> console_results] os1 of
             (Inl error, os2) \<Rightarrow> sendNotification_catch cfg env error os2
           | (Inr u2, os2) \<Rightarrow> (Inr (NotifResult True (notif_id env)), os2)))"

section \<open>Downstream propagation adapter (moquiService.js)\<close>

text \<open>
  The requests sent to the party system, with the fields of their bodies that depend on
  the contact. A party id is whatever the create call returned, possibly \<open>undefined\<close>.
  The \<open>fromDate\<close> timestamps of relationships and roles are left out.
\<close>

datatype moqui_request =
    PostPersons string string
  | PostEmail opt_str opt_str
  | PostPhone opt_str string opt_str
  | PostPostal opt_str string string string opt_str string opt_str
  | GetOrganizations opt_str
  | PostOrganizations opt_str
  | PostRelationships opt_str opt_str opt_str
  | PostRoles opt_str
  | PostAttributes opt_str string string string

text \<open>
  The part of \<open>response.data\<close> that is read: the \<open>partyId\<close> of an object, or the
  \<open>partyId\<close>s of the elements of an array. The response body is taken to be an object or
  an array, as a JSON API returns.
\<close>

datatype moqui_data = PartyData opt_str | OrgList "opt_str list"

type_synonym moqui_api = "moqui_request \<Rightarrow> js_error + moqui_data"

fun data_partyId :: "moqui_data \<Rightarrow> opt_str" where
  "data_partyId (PartyData p) = p"
| "data_partyId (OrgList ps) = Undefined"

text \<open>
  Strings are held as their UTF-8 bytes. \<open>js_whitespace\<close> lists the encodings of the
  characters that the language counts as white space or line terminator (the set of
  \<open>String.prototype.trim\<close> and of \<open>\s\<close> in a regular expression): U+0009 to U+000D,
  U+0020, U+00A0, U+1680, U+2000 to U+200A, U+2028, U+2029, U+202F, U+205F, U+3000 and
  U+FEFF. \<open>strip_one\<close> removes one of the given byte sequences from the front of a
  string, \<open>drop_leading\<close> removes them as long as there is one, and \<open>trim\<close> does so at
  both ends.
\<close>

definition js_whitespace :: "string list" where
  "js_whitespace =
     [[CHR 0x09], [CHR 0x0A], [CHR 0x0B], [CHR 0x0C], [CHR 0x0D], [CHR 0x20],
      [CHR 0xC2, CHR 0xA0], [CHR 0xE1, CHR 0x9A, CHR 0x80],
      [CHR 0xE2, CHR 0x80, CHR 0x80], [CHR 0xE2, CHR 0x80, CHR 0x81],
      [CHR 0xE2, CHR 0x80, CHR 0x82], [CHR 0xE2, CHR 0x80, CHR 0x83],
      [CHR 0xE2, CHR 0x80, CHR 0x84], [CHR 0xE2, CHR 0x80, CHR 0x85],
      [CHR 0xE2, CHR 0x80, CHR 0x86], [CHR 0xE2, CHR 0x80, CHR 0x87],
      [CHR 0xE2, CHR 0x80, CHR 0x88], [CHR 0xE2, CHR 0x80, CHR 0x89],
      [CHR 0xE2, CHR 0x80, CHR 0x8A], [CHR 0xE2, CHR 0x80, CHR 0xA8],
      [CHR 0xE2, CHR 0x80, CHR 0xA9], [CHR 0xE2, CHR 0x80, CHR 0xAF],
      [CHR 0xE2, CHR 0x81, CHR 0x9F], [CHR 0xE3, CHR 0x80, CHR 0x80],
      [CHR 0xEF, CHR 0xBB, CHR 0xBF]]"

definition strip_one :: "string list \<Rightarrow> string \<Rightarrow> string option" where
  "strip_one pats s =
     (case find (\<lambda>p. p \<noteq> [] \<and> take (length p) s = p) pats of
        None \<Rightarrow> None
      | Some p \<Rightarrow> Some (drop (length p) s))"

function drop_leading :: "string list \<Rightarrow> string \<Rightarrow> string" where
  "drop_leading pats s =
     (case strip_one pats s of
        None \<Rightarrow> s
      | Some rest \<Rightarrow> drop_leading pats rest)"
  by pat_completeness auto
termination
proof (relation "measure (\<lambda>(pats, s). length s)")
  show "wf (measure (\<lambda>(pats, s). length s))" by simp
next
  fix pats :: "string list" and s rest :: string
  assume "strip_one pats s = Some rest"
  then obtain p where p: "p \<noteq> []" "take (length p) s = p" and rest: "rest = drop (length p) s"
    by (auto simp: strip_one_def find_Some_iff split: option.splits)
  from p have "s \<noteq> []" by auto
  with p(1) rest have "length rest < length s" by simp
  then show "((pats, rest), (pats, s)) \<in> measure (\<lambda>(pats, s). length s)" by simp
qed

definition trim :: "string \<Rightarrow> string" where
  "trim s = rev (drop_leading (map rev js_whitespace) (rev (drop_leading js_whitespace s)))"

text \<open>
  The split of the trimmed name at its first space: \<open>split(" ")\<close>, then the first part,
  then the other parts joined by a space again.
\<close>

definition transformToMoquiParty :: "string \<Rightarrow> string \<times> string" where
  "transformToMoquiParty name =
     (let t = trim name
      in (takeWhile (\<lambda>c. c \<noteq> CHR '' '') t, drop 1 (dropWhile (\<lambda>c. c \<noteq> CHR '' '') t)))"

definition is_digit :: "char \<Rightarrow> bool" where
  "is_digit c = (c \<in> set ''0123456789'')"

text \<open>\<open>extractCountryCode\<close>: the match of \<open>/^\+(\d{1,3})/\<close>, or \<open>212\<close>.\<close>

fun extractCountryCode :: "string \<Rightarrow> string" where
  "extractCountryCode [] = ''212''"
| "extractCountryCode (c # cs) =
     (if c = CHR ''+'' \<and> takeWhile is_digit cs \<noteq> [] then take 3 (takeWhile is_digit cs)
      else ''212'')"

text \<open>The lookup tables of \<open>mapStateToGeoId\<close> and \<open>mapCountryToGeoId\<close> (own keys only).\<close>

definition stateMappings :: "(string \<times> (string \<times> string) list) list" where
  "stateMappings =
     [(''US'', [(''CA'', ''USA_CA''), (''NY'', ''USA_NY''), (''TX'', ''USA_TX''), (''FL'', ''USA_FL'')]),
      (''MA'', [(''01'', ''MAR_TNG''), (''02'', ''MAR_OUJ''), (''03'', ''MAR_FES''),
               (''04'', ''MAR_RBA''), (''05'', ''MAR_BES''), (''06'', ''MAR_CAS''),
               (''07'', ''MAR_MRA''), (''08'', ''MAR_DRS''), (''09'', ''MAR_SOU''),
               (''10'', ''MAR_GUI''), (''11'', ''MAR_LAA''), (''12'', ''MAR_DAK'')]),
      (''FR'', [(''75'', ''FRA_PAR''), (''69'', ''FRA_RHO''), (''93'', ''FRA_SEN'')])]"

definition countryMappings :: "(string \<times> string) list" where
  "countryMappings = [(''US'', ''USA''), (''FR'', ''FRA''), (''MA'', ''MAR'')]"

text \<open>The default \<open>country = "MA"\<close> applies to \<open>undefined\<close> only, not to \<open>null\<close>.\<close>

definition mapStateToGeoId :: "opt_str \<Rightarrow> opt_str \<Rightarrow> opt_str" where
  "mapStateToGeoId state country' =
     (let c = (case country' of Undefined \<Rightarrow> Str ''MA'' | x \<Rightarrow> x)
      in case map_of stateMappings (tmpl c) of
           None \<Rightarrow> state
         | Some table \<Rightarrow>
             (case map_of table (tmpl state) of
                None \<Rightarrow> state
              | Some geo \<Rightarrow> Str geo))"

definition mapCountryToGeoId :: "opt_str \<Rightarrow> opt_str" where
  "mapCountryToGeoId country' =
     (case map_of countryMappings (tmpl country') of
        None \<Rightarrow> country'
      | Some geo \<Rightarrow> Str geo)"

text \<open>
  The contact-channel requests that \<open>createContact\<close> starts, in the order of the source:
  email, phone, postal address, each only when its field is present.
\<close>

definition contact_requests :: "opt_str \<Rightarrow> contact \<Rightarrow> moqui_request list" where
  "contact_requests partyId c =
     (if truthy_str (emailAddress c) then [PostEmail partyId (emailAddress c)] else []) @
     (if truthy_str (phoneNumber c)
      then [PostPhone partyId (extractCountryCode (tmpl (phoneNumber c))) (phoneNumber c)]
      else []) @
     (if truthy_str (addressLine1 c) \<or> truthy_str (city c)
      then [PostPostal partyId (or_lit (addressLine1 c) '''') (or_lit (addressLine2 c) '''')
              (or_lit (city c) '''') (mapStateToGeoId (stateProvince c) (country c))
              (or_lit (postalCode c) '''') (mapCountryToGeoId (country c))]
      else [])"

text \<open>
  \<open>Promise.all\<close> rejects as soon as one of the started requests is rejected, with that
  request's error. Which one comes first when several are rejected depends on timing; the
  model takes the first in the order they were started.
\<close>

fun first_rejection :: "moqui_api \<Rightarrow> moqui_request list \<Rightarrow> js_error option" where
  "first_rejection api [] = None"
| "first_rejection api (r # rs) =
     (case api r of Inl e \<Rightarrow> Some e | Inr d \<Rightarrow> first_rejection api rs)"

text \<open>\<open>findOrCreateOrganization\<close>, with the requests it sent.\<close>

definition findOrCreateOrganization ::
  "moqui_api \<Rightarrow> opt_str \<Rightarrow> (js_error + opt_str) \<times> moqui_request list" where
  "findOrCreateOrganization api companyName =
     (case api (GetOrganizations companyName) of
        Inl error \<Rightarrow> (Inl error, [GetOrganizations companyName])
      | Inr (OrgList (p # ps)) \<Rightarrow> (Inr p, [GetOrganizations companyName])
      | Inr d \<Rightarrow>
          (case api (PostOrganizations companyName) of
             Inl error \<Rightarrow>
               (Inl error, [GetOrganizations companyName, PostOrganizations companyName])
           | Inr created \<Rightarrow>
               (Inr (data_partyId created),
                [GetOrganizations companyName, PostOrganizations companyName])))"

text \<open>
  \<open>addEmploymentInfo\<close> catches every error of its body and does not throw; the result is
  the list of requests it sent.
\<close>

definition addEmploymentInfo :: "moqui_api \<Rightarrow> opt_str \<Rightarrow> contact \<Rightarrow> moqui_request list" where
  "addEmploymentInfo api partyId c =
     (case findOrCreateOrganization api (company c) of
        (Inl error, sent) \<Rightarrow> sent
      | (Inr organizationId, sent) \<Rightarrow>
          (let rel = PostRelationships partyId organizationId
                       (if truthy_str (jobTitle c) then Str (''Job Title: '' @ tmpl (jobTitle c))
                        else Undefined)
           in case api rel of
                Inl error \<Rightarrow> sent @ [rel]
              | Inr d \<Rightarrow>
                  if truthy_str (jobTitle c) then sent @ [rel, PostRoles partyId]
                  else sent @ [rel]))"

fun join_comma :: "string list \<Rightarrow> string" where
  "join_comma [] = []"
| "join_comma [x] = x"
| "join_comma (x # y # zs) = x @ '','' @ join_comma (y # zs)"

definition attributes :: "opt_str \<Rightarrow> contact \<Rightarrow> moqui_request list" where
  "attributes partyId c =
     (if truthy_str (notes_text c)
      then [PostAttributes partyId ''notes'' (tmpl (notes_text c)) ''Contact Notes''] else []) @
     (if truthy_str (department c)
      then [PostAttributes partyId ''department'' (tmpl (department c)) ''Department''] else []) @
     (if truthy_str (preferredContactMethod c)
      then [PostAttributes partyId ''preferredContactMethod'' (tmpl (preferredContactMethod c))
              ''Preferred Contact Method''] else []) @
     (case tags c of
        Some (t # ts) \<Rightarrow> [PostAttributes partyId ''tags'' (join_comma (t # ts)) ''Contact Tags'']
      | _ \<Rightarrow> []) @
     (case customFields c of
        Some entries \<Rightarrow>
          map (\<lambda>(key, v). PostAttributes partyId (''custom_'' @ key) v (''Custom Field: '' @ key))
            entries
      | None \<Rightarrow> [])"

text \<open>The \<open>for\<close> loop of \<open>addCustomAttributes\<close>: it stops at the first rejected request.\<close>

fun post_each :: "moqui_api \<Rightarrow> moqui_request list \<Rightarrow> moqui_request list" where
  "post_each api [] = []"
| "post_each api (r # rs) =
     (case api r of Inl error \<Rightarrow> [r] | Inr d \<Rightarrow> r # post_each api rs)"

definition addCustomAttributes :: "moqui_api \<Rightarrow> opt_str \<Rightarrow> contact \<Rightarrow> moqui_request list" where
  "addCustomAttributes api partyId c = post_each api (attributes partyId c)"

text \<open>
  The result object of \<open>createContact\<close>: on success the remote id, the number of contact
  mechanisms and whether there was a company; on failure the error message.
\<close>

datatype moqui_result = MoquiSuccess opt_str nat bool | MoquiFailure string

fun moqui_success :: "moqui_result \<Rightarrow> bool" where
  "moqui_success (MoquiSuccess i n e) = True"
| "moqui_success (MoquiFailure m) = False"

text \<open>
  \<open>createContact\<close>, with the requests it sent. Everything sits in one \<open>try\<close>: a name that
  is not a string (the \<open>trim\<close> call throws), a rejected create-person request and a
  rejected \<open>Promise.all\<close> over the contact-channel requests all end in the \<open>catch\<close>, which
  returns \<open>success: false\<close>. All contact-channel requests have been started by then.
\<close>

definition createContact :: "moqui_api \<Rightarrow> contact \<Rightarrow> moqui_result \<times> moqui_request list" where
  "createContact api c =
     (case fullName c of
        Str name \<Rightarrow>
          (let person = PostPersons (fst (transformToMoquiParty name))
                          (snd (transformToMoquiParty name))
           in case api person of
                Inl error \<Rightarrow> (MoquiFailure (error_message error), [person])
              | Inr partyResponse \<Rightarrow>
                  (let partyId = data_partyId partyResponse;
                       contactPromises = contact_requests partyId c
                   in case first_rejection api contactPromises of
                        Some error \<Rightarrow>
                          (MoquiFailure (error_message error), person # contactPromises)
                      | None \<Rightarrow>
                          (MoquiSuccess partyId (length contactPromises) (truthy_str (company c)),
                           person # contactPromises @
                           (if truthy_str (company c) then addEmploymentInfo api partyId c
                            else []) @
                           (if customFields c \<noteq> None \<or> truthy_str (notes_text c)
                            then addCustomAttributes api partyId c else []))))
      | _ \<Rightarrow> (MoquiFailure ''Cannot read properties of undefined'', []))"

section \<open>Record transformer (cdmModels.js)\<close>

text \<open>
  The raw form data is an object of JSON values; reading a key that is absent gives
  \<open>undefined\<close>. Truthiness is JavaScript's.
\<close>

type_synonym form = "string \<Rightarrow> jsval"

fun truthy :: "jsval \<Rightarrow> bool" where
  "truthy JUndefined = False"
| "truthy JNull = False"
| "truthy (JBool b) = b"
| "truthy (JNum n) = (n \<noteq> 0)"
| "truthy (JStr s) = (s \<noteq> [])"
| "truthy (JArr xs) = True"
| "truthy (JObj kvs) = True"
| "truthy (JDate d) = True"

definition js_or :: "jsval \<Rightarrow> jsval \<Rightarrow> jsval" where
  "js_or a b = (if truthy a then a else b)"

text \<open>
  What the transformer takes from outside: the generated UUID, the clock, and the parts
  of the validation library and of the language that are not modelled: the email check,
  the conversion of a string or number to a date (\<open>None\<close>: not a valid date), the
  conversion of a string to an object (\<open>None\<close>: not an object), and \<open>String(v)\<close> for a
  value that is not a string.
\<close>

record transform_env =
  uuidv4 :: string
  now_iso :: string
  valid_email :: "string \<Rightarrow> bool"
  as_date :: "jsval \<Rightarrow> string option"
  as_object :: "string \<Rightarrow> (string \<times> jsval) list option"
  js_string :: "jsval \<Rightarrow> string"

fun template_value :: "transform_env \<Rightarrow> jsval \<Rightarrow> string" where
  "template_value env (JStr s) = s"
| "template_value env v = js_string env v"

text \<open>The object \<open>cdmData\<close> built by \<open>transformToCdmContact\<close>, key by key.\<close>

definition cdmData :: "transform_env \<Rightarrow> form \<Rightarrow> jsval \<Rightarrow> (string \<times> jsval) list" where
  "cdmData env formData userArg =
     (let userId = (if userArg = JUndefined then JStr ''system'' else userArg)
      in [(''contactId'', js_or (formData ''contactId'') (JStr (uuidv4 env))),
          (''fullName'',
             js_or (formData ''fullName'')
               (JStr (trim (template_value env (js_or (formData ''firstName'') (JStr '''')) @ '' '' @
                            template_value env (js_or (formData ''lastName'') (JStr '''')))))),
          (''emailAddress'', js_or (formData ''emailAddress'') (formData ''email'')),
          (''phoneNumber'', js_or (formData ''phoneNumber'') (formData ''phone'')),
          (''company'', js_or (formData ''company'') (formData ''organization'')),
          (''addressLine1'', js_or (formData ''addressLine1'') (formData ''address1'')),
          (''addressLine2'', js_or (formData ''addressLine2'') (formData ''address2'')),
          (''city'', formData ''city''),
          (''stateProvince'', js_or (formData ''stateProvince'') (formData ''state'')),
          (''postalCode'', js_or (formData ''postalCode'') (formData ''zipCode'')),
          (''country'', formData ''country''),
          (''jobTitle'', js_or (formData ''jobTitle'') (formData ''title'')),
          (''department'', formData ''department''),
          (''preferredContactMethod'', js_or (formData ''preferredContactMethod'') (JStr ''email'')),
          (''isActive'',
             (if formData ''isActive'' \<noteq> JUndefined then formData ''isActive'' else JBool True)),
          (''notes'', js_or (formData ''notes'') (formData ''comments'')),
          (''tags'', js_or (formData ''tags'') (JArr [])),
          (''customFields'', js_or (formData ''customFields'') (JObj [])),
          (''createdOn'', js_or (formData ''createdOn'') (JDate (now_iso env))),
          (''modifiedOn'', JDate (now_iso env)),
          (''createdBy'', js_or (formData ''createdBy'') userId),
          (''modifiedBy'', userId)])"

text \<open>
  The schema \<open>cdmContactSchema\<close>. A string field records whether it is required,
  whether \<open>null\<close> and the empty string are allowed, its length limits and its format
  rule; the other kinds are the enumerated string, the boolean, the alternatives of
  \<open>tags\<close>, the object and the date.
\<close>

datatype string_format = Plain | Email | PhonePattern

datatype field_schema =
    SString bool bool "nat option" "nat option" string_format
  | SValid "string list"
  | SBoolean
  | STags
  | SObject
  | SDate

definition cdmContactSchema :: "(string \<times> field_schema) list" where
  "cdmContactSchema =
     [(''contactId'', SString False False None None Plain),
      (''fullName'', SString True False (Some 1) (Some 255) Plain),
      (''emailAddress'', SString True False None None Email),
      (''phoneNumber'', SString False True None None PhonePattern),
      (''company'', SString False True None (Some 255) Plain),
      (''addressLine1'', SString False True None (Some 255) Plain),
      (''addressLine2'', SString False True None (Some 255) Plain),
      (''city'', SString False True None (Some 100) Plain),
      (''stateProvince'', SString False True None (Some 100) Plain),
      (''postalCode'', SString False True None (Some 20) Plain),
      (''country'', SString False True None (Some 100) Plain),
      (''jobTitle'', SString False True None (Some 255) Plain),
      (''department'', SString False True None (Some 255) Plain),
      (''preferredContactMethod'', SValid [''email'', ''phone'', ''mail'']),
      (''isActive'', SBoolean),
      (''notes'', SString False True None (Some 1000) Plain),
      (''tags'', STags),
      (''customFields'', SObject),
      (''createdOn'', SDate),
      (''modifiedOn'', SDate),
      (''createdBy'', SString False False None None Plain),
      (''modifiedBy'', SString False False None None Plain)]"

text \<open>The error kinds of the validation library that this schema can produce.\<close>

datatype violation =
    AnyRequired
  | StringBase
  | StringEmpty
  | StringMin nat
  | StringMax nat
  | StringEmail
  | StringPatternBase string
  | AnyOnly "string list"
  | BooleanBase
  | AlternativesMatch
  | ObjectBase
  | DateBase

text \<open>
  The pattern \<open>/^[\+]?[0-9\s\-\(\)]+$/\<close> of \<open>phoneNumber\<close>: an optional plus sign, then
  one or more characters each of which is a digit, a white space character, a hyphen or
  a parenthesis.
\<close>

function phone_body :: "string \<Rightarrow> bool" where
  "phone_body s =
     (case s of
        [] \<Rightarrow> True
      | c # cs \<Rightarrow>
          (case strip_one js_whitespace s of
             Some rest \<Rightarrow> phone_body rest
           | None \<Rightarrow>
               (is_digit c \<or> c = CHR ''-'' \<or> c = CHR ''('' \<or> c = CHR '')'') \<and> phone_body cs))"
  by pat_completeness auto
termination
proof (relation "measure length")
  show "wf (measure length)" by simp
next
  fix s rest :: string and c :: char and cs :: string
  assume s: "s = c # cs" and st: "strip_one js_whitespace s = Some rest"
  from st have "\<exists>p. p \<noteq> [] \<and> rest = drop (length p) s"
    by (auto simp: strip_one_def find_Some_iff split: option.splits)
  then obtain p where p: "p \<noteq> []" and rest: "rest = drop (length p) s"
    by blast
  from p rest s have "length rest < length s" by simp
  then show "(rest, s) \<in> measure length" by simp
next
  fix s :: string and c :: char and cs :: string
  assume "s = c # cs"
  then show "(cs, s) \<in> measure length" by simp
qed

definition phone_pattern :: "string \<Rightarrow> bool" where
  "phone_pattern s =
     (case s of
        [] \<Rightarrow> False
      | c # cs \<Rightarrow> if c = CHR ''+'' then cs \<noteq> [] \<and> phone_body cs else phone_body s)"

text \<open>
  The length of a string as the language and the validation library count it
  (\<open>value.length\<close>): the number of UTF-16 code units, that is one for each character and
  two for a character outside the basic plane. In the UTF-8 bytes every character has
  exactly one byte that is not a continuation byte (\<open>0x80\<close> to \<open>0xBF\<close>), and the
  characters outside the basic plane are those whose first byte is \<open>0xF0\<close> or above.
\<close>

definition js_length :: "string \<Rightarrow> nat" where
  "js_length s =
     length (filter (\<lambda>c. \<not> (128 \<le> (of_char c :: nat) \<and> (of_char c :: nat) < 192)) s) +
     length (filter (\<lambda>c. 240 \<le> (of_char c :: nat)) s)"

text \<open>
  The rules of a string that is not empty, all of them evaluated (no early abort inside
  a field): minimum length, maximum length, format.
\<close>

definition string_rules ::
  "transform_env \<Rightarrow> nat option \<Rightarrow> nat option \<Rightarrow> string_format \<Rightarrow> string \<Rightarrow> violation list" where
  "string_rules env mn mx fmt s =
     (case mn of Some n \<Rightarrow> if js_length s < n then [StringMin n] else [] | None \<Rightarrow> []) @
     (case mx of Some n \<Rightarrow> if n < js_length s then [StringMax n] else [] | None \<Rightarrow> []) @
     (case fmt of
        Plain \<Rightarrow> []
      | Email \<Rightarrow> if valid_email env s then [] else [StringEmail]
      | PhonePattern \<Rightarrow> if phone_pattern s then [] else [StringPatternBase s])"

text \<open>
  The violations of one field. An absent or \<open>undefined\<close> value only violates
  \<open>required()\<close>. A value outside the list of an enumerated string is reported as
  \<open>any.only\<close> and, since all violations are collected, goes on to the type check of a
  string, which reports a value that is not a string, or the empty string, a second time. The third alternative of \<open>tags\<close>, \<open>Joi.allow(null)\<close>, is a schema of any
  type, so every value matches it. With \<open>convert: true\<close> the strings \<open>true\<close> and \<open>false\<close>
  (in any case) count as booleans, a string or number can convert to a date and a string
  can convert to an object.
\<close>

fun check :: "transform_env \<Rightarrow> field_schema \<Rightarrow> jsval \<Rightarrow> violation list" where
  "check env (SString req allow mn mx fmt) v =
     (case v of
        JUndefined \<Rightarrow> if req then [AnyRequired] else []
      | JNull \<Rightarrow> if allow then [] else [StringBase]
      | JStr s \<Rightarrow>
          if s = [] then (if allow then [] else [StringEmpty])
          else string_rules env mn mx fmt s
      | _ \<Rightarrow> [StringBase])"
| "check env (SValid vs) v =
     (case v of
        JUndefined \<Rightarrow> []
      | JStr s \<Rightarrow>
          if s \<in> set vs then []
          else if s = [] then [AnyOnly vs, StringEmpty]
          else [AnyOnly vs]
      | _ \<Rightarrow> [AnyOnly vs, StringBase])"
| "check env SBoolean v =
     (case v of
        JUndefined \<Rightarrow> []
      | JBool b \<Rightarrow> []
      | JStr s \<Rightarrow>
          if toLowerCase s = ''true'' \<or> toLowerCase s = ''false'' then [] else [BooleanBase]
      | _ \<Rightarrow> [BooleanBase])"
| "check env STags v =
     (let array_of_strings = (case v of JArr xs \<Rightarrow> list_all (\<lambda>x. case x of JStr s \<Rightarrow> True | _ \<Rightarrow> False) xs
                                      | _ \<Rightarrow> False);
          empty_or_null = (v = JStr '''' \<or> v = JNull);
          anything = True
      in if v = JUndefined \<or> array_of_strings \<or> empty_or_null \<or> anything then []
         else [AlternativesMatch])"
| "check env SObject v =
     (case v of
        JUndefined \<Rightarrow> []
      | JNull \<Rightarrow> []
      | JObj kvs \<Rightarrow> []
      | JDate d \<Rightarrow> []
      | JStr s \<Rightarrow> if as_object env s \<noteq> None then [] else [ObjectBase]
      | _ \<Rightarrow> [ObjectBase])"
| "check env SDate v =
     (case v of
        JUndefined \<Rightarrow> []
      | JDate d \<Rightarrow> []
      | JStr s \<Rightarrow> if as_date env v \<noteq> None then [] else [DateBase]
      | JNum n \<Rightarrow> if as_date env v \<noteq> None then [] else [DateBase]
      | _ \<Rightarrow> [DateBase])"

text \<open>
  \<open>schema.validate(data, {abortEarly, ...})\<close>: the details of all fields in schema
  order, or only the first one when \<open>abortEarly\<close> is set.
\<close>

definition field_value :: "(string \<times> jsval) list \<Rightarrow> string \<Rightarrow> jsval" where
  "field_value data key = (case map_of data key of None \<Rightarrow> JUndefined | Some v \<Rightarrow> v)"

definition field_details ::
  "transform_env \<Rightarrow> (string \<times> jsval) list \<Rightarrow> string \<times> field_schema \<Rightarrow> (string \<times> violation) list" where
  "field_details env data ks = map (\<lambda>v. (fst ks, v)) (check env (snd ks) (field_value data (fst ks)))"

definition joi_validate ::
  "bool \<Rightarrow> transform_env \<Rightarrow> (string \<times> field_schema) list \<Rightarrow> (string \<times> jsval) list \<Rightarrow>
     (string \<times> violation) list" where
  "joi_validate abortEarly env schema data =
     (let details = concat (map (field_details env data) schema)
      in if abortEarly then take 1 details else details)"

text \<open>The message of a detail, as the library words it; the label is the quoted key.\<close>

definition quoted :: "string \<Rightarrow> string" where
  "quoted s = [CHR 0x22] @ s @ [CHR 0x22]"

fun join_with :: "string \<Rightarrow> string list \<Rightarrow> string" where
  "join_with sep [] = []"
| "join_with sep [x] = x"
| "join_with sep (x # y # zs) = x @ sep @ join_with sep (y # zs)"

definition phone_regex_text :: string where
  "phone_regex_text =
     ''/^['' @ [CHR 0x5C] @ ''+]?[0-9'' @ [CHR 0x5C] @ ''s'' @ [CHR 0x5C] @ ''-'' @ [CHR 0x5C] @
     ''('' @ [CHR 0x5C] @ '')]+$/''"

fun detail_message :: "string \<times> violation \<Rightarrow> string" where
  "detail_message (key, AnyRequired) = quoted key @ '' is required''"
| "detail_message (key, StringBase) = quoted key @ '' must be a string''"
| "detail_message (key, StringEmpty) = quoted key @ '' is not allowed to be empty''"
| "detail_message (key, StringMin n) =
     quoted key @ '' length must be at least '' @ string_of_nat n @ '' characters long''"
| "detail_message (key, StringMax n) =
     quoted key @ '' length must be less than or equal to '' @ string_of_nat n @
     '' characters long''"
| "detail_message (key, StringEmail) = quoted key @ '' must be a valid email''"
| "detail_message (key, StringPatternBase s) =
     quoted key @ '' with value '' @ quoted s @ '' fails to match the required pattern: '' @
     phone_regex_text"
| "detail_message (key, AnyOnly vs) =
     quoted key @ '' must be '' @ (if length vs = 1 then [] else ''one of '') @
     ''['' @ join_with '', '' vs @ '']''"
| "detail_message (key, BooleanBase) = quoted key @ '' must be a boolean''"
| "detail_message (key, AlternativesMatch) =
     quoted key @ '' does not match any of the allowed types''"
| "detail_message (key, ObjectBase) = quoted key @ '' must be of type object''"
| "detail_message (key, DateBase) = quoted key @ '' must be a valid date''"

text \<open>The validated value: the data with the conversions applied.\<close>

fun converted :: "transform_env \<Rightarrow> field_schema \<Rightarrow> jsval \<Rightarrow> jsval" where
  "converted env SBoolean (JStr s) = JBool (toLowerCase s = ''true'')"
| "converted env SObject (JStr s) = (case as_object env s of Some kvs \<Rightarrow> JObj kvs | None \<Rightarrow> JStr s)"
| "converted env SDate (JStr s) = (case as_date env (JStr s) of Some d \<Rightarrow> JDate d | None \<Rightarrow> JStr s)"
| "converted env SDate (JNum n) = (case as_date env (JNum n) of Some d \<Rightarrow> JDate d | None \<Rightarrow> JNum n)"
| "converted env sch v = v"

text \<open>
  \<open>validateCdmContact\<close> validates with \<open>abortEarly: false\<close> and throws one error whose
  message joins the messages of all details; \<open>transformToCdmContact\<close> builds \<open>cdmData\<close>
  and validates it.
\<close>

definition validateCdmContact ::
  "transform_env \<Rightarrow> (string \<times> jsval) list \<Rightarrow> js_error + (string \<times> jsval) list" where
  "validateCdmContact env data =
     (let details = joi_validate False env cdmContactSchema data
      in if details \<noteq> []
         then Inl (PlainError (''CDM Contact validation failed: '' @
                               join_with '', '' (map detail_message details)))
         else Inr (map (\<lambda>ks. (fst ks, converted env (snd ks) (field_value data (fst ks))))
                     cdmContactSchema))"

definition transformToCdmContact ::
  "transform_env \<Rightarrow> form \<Rightarrow> jsval \<Rightarrow> js_error + (string \<times> jsval) list" where
  "transformToCdmContact env formData userId = validateCdmContact env (cdmData env formData userId)"

text \<open>An environment and a form for running the transformer on concrete inputs.\<close>

definition tenv0 :: transform_env where
  "tenv0 = \<lparr>uuidv4 = ''1b9d6bcd-bbfd-4b2d-9b5d-ab8dfbbd4bed'', now_iso = ''2025-01-02T03:04:05.678Z'',
            valid_email = (\<lambda>s. CHR ''@'' \<in> set s), as_date = (\<lambda>v. None),
            as_object = (\<lambda>s. None), js_string = (\<lambda>v. '''')\<rparr>"

definition bad_form :: form where
  "bad_form key =
     (if key = ''emailAddress'' then JStr ''jane.at.x.com''
      else if key = ''phoneNumber'' then JStr ''abc''
      else if key = ''preferredContactMethod'' then JNum 5
      else JUndefined)"

section \<open>Webhook controller (webhookController.js)\<close>

text \<open>
  The signature middleware either calls \<open>next()\<close>, sends a response, or throws. The HMAC
  is the library's; it is a parameter that maps the secret and the raw body to the hex
  digest. Strings are byte strings, as the buffers compared by \<open>timingSafeEqual\<close> are;
  that function throws a RangeError when the two buffers differ in length. \<open>req.rawBody\<close>
  is undefined (\<open>None\<close>) when no body was captured, and \<open>update(undefined)\<close> throws.
\<close>

datatype mw_result = Next | Respond nat string | Throw js_error

definition verifyWebhookSignature ::
  "(string \<Rightarrow> string \<Rightarrow> string) \<Rightarrow> string \<Rightarrow> opt_str \<Rightarrow> string option \<Rightarrow> mw_result" where
  "verifyWebhookSignature hmac_sha256_hex secret signature payload =
     (if \<not> truthy_str signature then Respond 401 ''Missing signature''
      else (case payload of
              None \<Rightarrow> Throw (TypeError ''The data argument must be of type string'')
            | Some p \<Rightarrow>
                (let expectedSignature = hmac_sha256_hex secret p
                 in if length (tmpl signature) \<noteq> length expectedSignature
                    then Throw (RangeError ''Input buffers must have the same byte length'')
                    else if tmpl signature \<noteq> expectedSignature
                    then Respond 401 ''Invalid signature''
                    else Next)))"

record pull_request =
  pr_number :: nat
  pr_title :: opt_str
  pr_body :: opt_str
  pr_merged :: bool
  pr_html_url :: opt_str
  pr_user_login :: opt_str

record repository =
  repo_name :: opt_str
  repo_id :: nat

record webhook_body =
  wb_action :: opt_str
  wb_pull_request :: "pull_request option"
  wb_repository :: "repository option"

record webhook_request =
  rq_signature :: opt_str
  rq_rawBody :: "string option"
  rq_body :: webhook_body

text \<open>
  \<open>text.match(/LITERAL(.+)/)\<close> for a literal prefix: the leftmost place where the
  literal is followed by at least one character that is not a line terminator; the group
  is the longest run of such characters. Line terminators are LF and CR here (the two
  that fit in a byte).
\<close>

definition line_terminator :: "char \<Rightarrow> bool" where
  "line_terminator c = (c = CHR 0x0A \<or> c = CHR 0x0D)"

fun match_after :: "string \<Rightarrow> string \<Rightarrow> string option" where
  "match_after lit [] = None"
| "match_after lit (c # cs) =
     (if take (length lit) (c # cs) = lit \<and>
         takeWhile (\<lambda>x. \<not> line_terminator x) (drop (length lit) (c # cs)) \<noteq> []
      then Some (takeWhile (\<lambda>x. \<not> line_terminator x) (drop (length lit) (c # cs)))
      else match_after lit cs)"

fun match_field :: "string \<Rightarrow> string \<Rightarrow> opt_str" where
  "match_field lit s = (case match_after lit s of None \<Rightarrow> Null | Some g \<Rightarrow> Str g)"

text \<open>
  \<open>extractContactDataFromPR\<close>: \<open>None\<close> is the \<open>null\<close> it returns when the title does not
  match, or when reading the title throws (the \<open>catch\<close> returns \<open>null\<close> too).
\<close>

definition extractContactDataFromPR :: "pull_request \<Rightarrow> contact option" where
  "extractContactDataFromPR pullRequest =
     (case pr_title pullRequest of
        Str title \<Rightarrow>
          (case match_after ''Add Contact: '' title of
             None \<Rightarrow> None
           | Some name \<Rightarrow>
               (let body = or_lit (pr_body pullRequest) ''''
                in Some \<lparr>contactId = match_field ''**Contact ID:** '' body,
                         fullName = Str name,
                         emailAddress = match_field ''**Email:** '' body,
                         phoneNumber = Undefined,
                         company = match_field ''**Company:** '' body,
                         addressLine1 = Undefined, addressLine2 = Undefined, city = Undefined,
                         stateProvince = Undefined, postalCode = Undefined, country = Undefined,
                         jobTitle = Undefined, department = Undefined,
                         preferredContactMethod = Undefined, notes_text = Undefined,
                         tags = None, customFields = None\<rparr>))
      | _ \<Rightarrow> None)"

text \<open>
  What a webhook delivery can change: the search store (contacts and notifications) and
  the requests sent to the party system. The clock readings and the notification id are
  inputs.
\<close>

record world =
  store :: opensearch
  moqui_calls :: "moqui_request list"

record webhook_env =
  syncedAt :: string
  update_now :: string
  notif :: notif_env

definition notify ::
  "os_config \<Rightarrow> webhook_env \<Rightarrow> notification \<Rightarrow> world \<Rightarrow> (js_error + unit) \<times> world" where
  "notify cfg env n w =
     (case sendNotification cfg (notif env) n (store w) of
        (Inl e, os1) \<Rightarrow> (Inl e, w\<lparr>store := os1\<rparr>)
      | (Inr r, os1) \<Rightarrow> (Inr (), w\<lparr>store := os1\<rparr>))"

text \<open>
  \<open>handlePullRequestMerged\<close>. Its \<open>catch\<close> block logs and throws the error again; the
  statements that would mark the contact as failed and send a failure notification are
  commented out in the source, so they are not part of the function.
\<close>

definition handlePullRequestMerged ::
  "moqui_api \<Rightarrow> os_config \<Rightarrow> webhook_env \<Rightarrow> pull_request \<Rightarrow> world \<Rightarrow> (js_error + unit) \<times> world" where
  "handlePullRequestMerged api cfg env pullRequest w =
     (case extractContactDataFromPR pullRequest of
        None \<Rightarrow> (Inr (), w)
      | Some contactData \<Rightarrow>
          (case createContact api contactData of
             (MoquiFailure err, sent) \<Rightarrow>
               (Inl (PlainError (''Moqui integration failed: '' @ err)),
                w\<lparr>moqui_calls := moqui_calls w @ sent\<rparr>)
           | (MoquiSuccess moquiId n e, sent) \<Rightarrow>
               (let w1 = w\<lparr>moqui_calls := moqui_calls w @ sent\<rparr>
                in case updateContact cfg (update_now env) (contactId contactData)
                          [''moquiId'' \<mapsto> of_opt_str moquiId, ''syncStatus'' \<mapsto> JStr ''synced'',
                           ''syncedAt'' \<mapsto> JStr (syncedAt env)] (store w1) of
                     (Inl error, os1) \<Rightarrow> (Inl error, w1\<lparr>store := os1\<rparr>)
                   | (Inr u, os1) \<Rightarrow>
                       notify cfg env
                         \<lparr>n_type = ''contact_synced'',
                          n_title = ''Contact Successfully Synced to Moqui'',
                          n_message = ''Contact '' @ tmpl (fullName contactData) @
                                      '' has been successfully synced to Moqui framework'',
                          n_metadata = [(''contactId'', of_opt_str (contactId contactData)),
                                        (''moquiId'', of_opt_str moquiId),
                                        (''pullRequestNumber'', JNum (int (pr_number pullRequest)))]\<rparr>
                         (w1\<lparr>store := os1\<rparr>))))"

text \<open>\<open>handlePullRequestOpened\<close> catches and logs every error of its body.\<close>

definition handlePullRequestOpened ::
  "os_config \<Rightarrow> webhook_env \<Rightarrow> pull_request \<Rightarrow> world \<Rightarrow> (js_error + unit) \<times> world" where
  "handlePullRequestOpened cfg env pullRequest w =
     (case notify cfg env
             \<lparr>n_type = ''review_requested'',
              n_title = ''New Contact Data Submitted for Review'',
              n_message = ''Pull request #'' @ string_of_nat (pr_number pullRequest) @
                          '' contains new contact data that requires review'',
              n_metadata = [(''pullRequestNumber'', JNum (int (pr_number pullRequest))),
                            (''contactName'',
                               (case extractContactDataFromPR pullRequest of
                                  None \<Rightarrow> JUndefined
                                | Some contactData \<Rightarrow> of_opt_str (fullName contactData))),
                            (''submittedBy'', of_opt_str (pr_user_login pullRequest)),
                            (''reviewUrl'', of_opt_str (pr_html_url pullRequest))]\<rparr> w of
        (r, w1) \<Rightarrow> (Inr (), w1))"

definition handlePullRequestUpdated ::
  "os_config \<Rightarrow> webhook_env \<Rightarrow> pull_request \<Rightarrow> world \<Rightarrow> (js_error + unit) \<times> world" where
  "handlePullRequestUpdated cfg env pullRequest w =
     notify cfg env
       \<lparr>n_type = ''review_updated'',
        n_title = ''Pull Request Updated'',
        n_message = ''Pull request #'' @ string_of_nat (pr_number pullRequest) @
                    '' has been updated and is being re-validated'',
        n_metadata = [(''pullRequestNumber'', JNum (int (pr_number pullRequest))),
                      (''reviewUrl'', of_opt_str (pr_html_url pullRequest))]\<rparr> w"

definition handleRepositoryDeleted ::
  "os_config \<Rightarrow> webhook_env \<Rightarrow> repository \<Rightarrow> string \<Rightarrow> world \<Rightarrow> (js_error + unit) \<times> world" where
  "handleRepositoryDeleted cfg env repo webhookId w =
     (case ResetContactIndices cfg (store w) of
        (Inl error, os1) \<Rightarrow> (Inl error, w\<lparr>store := os1\<rparr>)
      | (Inr u, os1) \<Rightarrow>
          notify cfg env
            \<lparr>n_type = ''repository_deleted'',
             n_title = ''Repository Deleted'',
             n_message = ''Repository '' @ [CHR 0x22] @ tmpl (repo_name repo) @ [CHR 0x22] @
                         '' has been deleted.'',
             n_metadata = [(''repositoryName'', of_opt_str (repo_name repo)),
                           (''repositoryId'', JNum (int (repo_id repo))),
                           (''webhookId'', JStr webhookId)]\<rparr>
            (w\<lparr>store := os1\<rparr>))"

text \<open>
  The route handler of \<open>POST /gitea\<close>: it dispatches on the action, answers 200 when the
  chosen handler (or none) returns and 500 when it throws.
\<close>

datatype http_outcome = Responded nat | Unhandled js_error

definition gitea_handler ::
  "moqui_api \<Rightarrow> os_config \<Rightarrow> webhook_env \<Rightarrow> string \<Rightarrow> webhook_body \<Rightarrow> world \<Rightarrow>
     http_outcome \<times> world" where
  "gitea_handler api cfg env webhookId b w =
     (case (case (if wb_action b = Str ''deleted'' then wb_repository b else None) of
              Some repo \<Rightarrow> handleRepositoryDeleted cfg env repo webhookId w
            | None \<Rightarrow>
                (case wb_pull_request b of
                   None \<Rightarrow> (Inr (), w)
                 | Some pr \<Rightarrow>
                     if wb_action b = Str ''closed'' \<and> pr_merged pr
                     then handlePullRequestMerged api cfg env pr w
                     else if wb_action b = Str ''opened''
                     then handlePullRequestOpened cfg env pr w
                     else if wb_action b = Str ''synchronized''
                     then handlePullRequestUpdated cfg env pr w
                     else (Inr (), w))) of
        (Inr u, w1) \<Rightarrow> (Responded 200, w1)
      | (Inl error, w1) \<Rightarrow> (Responded 500, w1))"

text \<open>
  The route with its middleware. An error thrown by the middleware goes to the
  application's error handler, which is outside the controller.
\<close>

definition post_gitea ::
  "(string \<Rightarrow> string \<Rightarrow> string) \<Rightarrow> string \<Rightarrow> moqui_api \<Rightarrow> os_config \<Rightarrow> webhook_env \<Rightarrow> string \<Rightarrow>
     webhook_request \<Rightarrow> world \<Rightarrow> http_outcome \<times> world" where
  "post_gitea hmac_sha256_hex secret api cfg env webhookId req w =
     (case verifyWebhookSignature hmac_sha256_hex secret (rq_signature req) (rq_rawBody req) of
        Next \<Rightarrow> gitea_handler api cfg env webhookId (rq_body req) w
      | Respond st msg \<Rightarrow> (Responded st, w)
      | Throw error \<Rightarrow> (Unhandled error, w))"

text \<open>Concrete requests, party systems and worlds for running the controller.\<close>

definition hmac0 :: "string \<Rightarrow> string \<Rightarrow> string" where
  "hmac0 secret payload = replicate 64 (CHR ''a'')"

definition env1 :: webhook_env where
  "env1 = \<lparr>syncedAt = ''2025-01-02T03:04:05.678Z'', update_now = ''2025-01-02T03:04:05.679Z'',
           notif = \<lparr>notif_id = ''notif-1735787045680-abcdefghi'',
                    notif_timestamp = ''2025-01-02T03:04:05.680Z''\<rparr>\<rparr>"

definition world1 :: world where
  "world1 = \<lparr>store = store0, moqui_calls = []\<rparr>"

definition pr_jane :: pull_request where
  "pr_jane = \<lparr>pr_number = 7, pr_title = Str ''Add Contact: Jane Roe'',
              pr_body = Str (''**Contact ID:** c1'' @ [CHR 0x0A] @ ''**Email:** jane@x.com''),
              pr_merged = True, pr_html_url = Undefined, pr_user_login = Undefined\<rparr>"

definition pr_docs :: pull_request where
  "pr_docs = \<lparr>pr_number = 8, pr_title = Str ''Update README'', pr_body = Null,
              pr_merged = True, pr_html_url = Undefined, pr_user_login = Undefined\<rparr>"

definition merged_request :: "opt_str \<Rightarrow> pull_request \<Rightarrow> webhook_request" where
  "merged_request sig pr =
     \<lparr>rq_signature = sig, rq_rawBody = Some ''{}'',
      rq_body = \<lparr>wb_action = Str ''closed'', wb_pull_request = Some pr,
                 wb_repository = Some \<lparr>repo_name = Str ''cdm-data'', repo_id = 1\<rparr>\<rparr>\<rparr>"

text \<open>A party system that is down, one that rejects only the email channel, and one
  that accepts the person and the email channel and rejects everything else.\<close>

definition moqui_down :: moqui_api where
  "moqui_down r = Inl (NetworkError ''connect ECONNREFUSED'')"

fun moqui_rejects_email :: moqui_api where
  "moqui_rejects_email (PostEmail p a) = Inl (HttpError 500 ''Request failed with status code 500'')"
| "moqui_rejects_email (GetOrganizations n) = Inr (OrgList [])"
| "moqui_rejects_email r = Inr (PartyData (Str ''100000''))"

fun moqui_only_core :: moqui_api where
  "moqui_only_core (PostPersons f l) = Inr (PartyData (Str ''100000''))"
| "moqui_only_core (PostEmail p a) = Inr (PartyData Undefined)"
| "moqui_only_core r = Inl (HttpError 500 ''Request failed with status code 500'')"

definition contact_jane :: contact where
  "contact_jane = contact0\<lparr>notes_text := Str ''met at the fair''\<rparr>"

section \<open>Merge requests of the data controller (dataController.js)\<close>










section \<open>Properties of the version-control adapter\<close>



lemma deleteBranch_failure_logged:
  "deleteBranch api b w = (Inl e, w1) \<Longrightarrow>
     api (host w) (DeleteBranch b) = (Inl e, host w1)"
  by (auto simp: deleteBranch_def logger_def client_request_def split: prod.splits sum.splits)




text \<open>
  Claim C4. Whatever the host answers, when the steps of \<open>commitCdmData\<close> fail with an
  error, the operation issues \<open>deleteBranch\<close> for the computed branch name as its last
  request and throws that same error; when the deletion itself is rejected, the rejection
  is logged as \<open>Failed to cleanup branch:\<close> and the error thrown is still the original one.
\<close>

theorem commitCdmData_compensates:
  "commit_steps api env
      (generateBranchName (branch_now env) (branch_random env) ''contact''
         (substr8 (contactId c))) c w = (Inl e, w1) \<Longrightarrow>
   fst (commitCdmData api env c w) = Inl e \<and>
   calls (snd (commitCdmData api env c w)) =
     calls w1 @ [DeleteBranch (generateBranchName (branch_now env) (branch_random env) ''contact''
                   (substr8 (contactId c)))] \<and>
   (\<forall>ce h. api (host w1)
             (DeleteBranch (generateBranchName (branch_now env) (branch_random env) ''contact''
                (substr8 (contactId c)))) = (Inl ce, h) \<longrightarrow>
       fst (commitCdmData api env c w) = Inl e \<and>
       last (logs (snd (commitCdmData api env c w))) = (Error, ''Failed to cleanup branch:''))"
  by (auto simp: commitCdmData_def deleteBranch_def client_request_def logger_def Let_def
           split: prod.splits sum.splits)

theorem commitCdmData_compensates_witness:
  "commit_steps branch_host env0
      (generateBranchName (branch_now env0) (branch_random env0) ''contact''
         (substr8 (contactId contact0))) contact0 (world0 [''main'']) =
     (Inl (HttpError 403 ''forbidden''),
      \<lparr>host = [''main''], calls = [GetRepo], logs = [(Error, ''Error checking repository:'')]\<rparr>)
   \<and> fst (commitCdmData branch_host env0 contact0 (world0 [''main''])) =
       Inl (HttpError 403 ''forbidden'')
   \<and> calls (snd (commitCdmData branch_host env0 contact0 (world0 [''main'']))) =
       [GetRepo, DeleteBranch ''contact-1b9d6bcd-2025-01-02t03-04-05-678z'']
   \<and> last (logs (snd (commitCdmData branch_host env0 contact0 (world0 [''main''])))) =
       (Error, ''Failed to cleanup branch:'')"
proof -
  have bn: "generateBranchName (branch_now env0) (branch_random env0) ''contact''
              (substr8 (contactId contact0)) =
            ''contact-1b9d6bcd-2025-01-02t03-04-05-678z''"
    by (simp add: generateBranchName_def env0_def contact0_def toLowerCase_def)
  have steps: "commit_steps branch_host env0
      (generateBranchName (branch_now env0) (branch_random env0) ''contact''
         (substr8 (contactId contact0))) contact0 (world0 [''main'']) =
     (Inl (HttpError 403 ''forbidden''),
      \<lparr>host = [''main''], calls = [GetRepo], logs = [(Error, ''Error checking repository:'')]\<rparr>)"
    unfolding bn
    by (simp add: commit_steps_def ensureRepository_def client_request_def logger_def world0_def)
  show ?thesis
    using steps commitCdmData_compensates [OF steps] by (simp add: bn)
qed

section \<open>Properties of the index adapter\<close>

lemma merge_patch_fields:
  "old ++ json_body (upd(''modifiedOn'' \<mapsto> JStr now)) =
     (\<lambda>k. if k = ''modifiedOn'' then Some (JStr now)
          else (case upd k of None \<Rightarrow> old k
                | Some v \<Rightarrow> if v = JUndefined then old k else Some v))"
  by (rule ext) (auto simp: map_add_def json_body_def split: option.splits)

lemma client_call_indices: "client_call c os = (f, os1) \<Longrightarrow> indices os1 = indices os"
  by (auto simp: client_call_def split: list.splits)



























text \<open>
  Claim C8. A call of \<open>updateContact\<close> that the store accepts replaces the stored
  document of that id by one in which \<open>modifiedOn\<close> is the time of the call, every other
  field that the caller provided (with a value other than \<open>undefined\<close>) has the provided
  value, and every remaining field has its previous value; no other document and no other
  index changes. A call that is rejected changes nothing.
\<close>

theorem updateContact_merge_patch:
  "updateContact cfg now cid upd os = (r, os1) \<Longrightarrow>
     (case r of
        Inl e \<Rightarrow> indices os1 = indices os
      | Inr u \<Rightarrow>
          (\<exists>i ix old. cid = Str i \<and> indices os (contactsIndex cfg) = Some ix \<and>
             by_id ix i = Some old \<and>
             indices os1 = (indices os)(contactsIndex cfg \<mapsto>
                ix\<lparr>by_id := (by_id ix)(i \<mapsto>
                  (\<lambda>k. if k = ''modifiedOn'' then Some (JStr now)
                       else (case upd k of None \<Rightarrow> old k
                             | Some v \<Rightarrow> if v = JUndefined then old k else Some v)))\<rparr>)))"
  unfolding updateContact_def client_update_def merge_patch_fields
  by (auto split: prod.splits option.splits opt_str.splits sum.splits dest!: client_call_indices)

theorem updateContact_merge_patch_witness:
  "fst (updateContact default_config ''2025-01-02T03:04:05.678Z'' (Str ''c1'')
          [''syncStatus'' \<mapsto> JStr ''synced'', ''moquiId'' \<mapsto> JUndefined] store0) = Inr ()
   \<and> (\<exists>ix d. indices (snd (updateContact default_config ''2025-01-02T03:04:05.678Z'' (Str ''c1'')
                 [''syncStatus'' \<mapsto> JStr ''synced'', ''moquiId'' \<mapsto> JUndefined] store0))
               ''contacts'' = Some ix
         \<and> by_id ix ''c1'' = Some d
         \<and> d ''fullName'' = Some (JStr ''Jane Roe'')
         \<and> d ''syncStatus'' = Some (JStr ''synced'')
         \<and> d ''moquiId'' = None
         \<and> d ''modifiedOn'' = Some (JStr ''2025-01-02T03:04:05.678Z''))"
proof -
  let ?run = "updateContact default_config ''2025-01-02T03:04:05.678Z'' (Str ''c1'')
                [''syncStatus'' \<mapsto> JStr ''synced'', ''moquiId'' \<mapsto> JUndefined] store0"
  have ok: "fst ?run = Inr ()"
    by (simp add: updateContact_def client_update_def client_call_def store0_def
        default_config_def)
  have run: "?run = (Inr (), snd ?run)"
    using ok by (metis prod.collapse)
  from updateContact_merge_patch [OF run]
  obtain i ix old where w: "Str ''c1'' = Str i" "indices store0 (contactsIndex default_config) = Some ix"
      "by_id ix i = Some old"
      "indices (snd ?run) = (indices store0)(contactsIndex default_config \<mapsto>
                ix\<lparr>by_id := (by_id ix)(i \<mapsto>
                  (\<lambda>k. if k = ''modifiedOn'' then Some (JStr ''2025-01-02T03:04:05.678Z'')
                       else (case [''syncStatus'' \<mapsto> JStr ''synced'', ''moquiId'' \<mapsto> JUndefined] k of
                               None \<Rightarrow> old k
                             | Some v \<Rightarrow> if v = JUndefined then old k else Some v)))\<rparr>)"
    by auto
  from w(1) have i: "i = ''c1''" by simp
  from w(2,3) i have old: "old ''fullName'' = Some (JStr ''Jane Roe'')" "old ''moquiId'' = None"
    by (auto simp: store0_def default_config_def)
  show ?thesis
    using ok w(4) i old by (simp add: default_config_def)
qed






section \<open>Properties of the downstream propagation adapter\<close>

lemma first_rejection_None:
  "first_rejection api rs = None \<longleftrightarrow> (\<forall>r \<in> set rs. \<exists>d. api r = Inr d)"
  by (induction rs) (auto split: sum.splits)

text \<open>
  Claim C1, as the source has it. When the name is a string and the create-person
  request is accepted, \<open>createContact\<close> reports success exactly when every contact-channel
  request it started is accepted: the requests are joined with \<open>Promise.all\<close> inside the
  \<open>try\<close>, so one rejected channel makes the result \<open>success: false\<close>. The answers to the
  employment and attribute requests do not occur in the condition: their failures never
  change the result, which on success carries the remote id of the create-person answer.
\<close>

theorem createContact_success_iff_channels_accepted:
  "fullName c = Str name \<Longrightarrow>
   api (PostPersons (fst (transformToMoquiParty name)) (snd (transformToMoquiParty name))) = Inr d \<Longrightarrow>
   (moqui_success (fst (createContact api c)) \<longleftrightarrow>
      (\<forall>r \<in> set (contact_requests (data_partyId d) c). \<exists>x. api r = Inr x)) \<and>
   (moqui_success (fst (createContact api c)) \<longrightarrow>
      fst (createContact api c) =
        MoquiSuccess (data_partyId d) (length (contact_requests (data_partyId d) c))
          (truthy_str (company c)))"
  by (auto simp: createContact_def Let_def first_rejection_None [symmetric] split: option.splits)

text \<open>
  Claim C1 as stated fails: the create-person request is accepted, the email channel is
  rejected, and the result is a failure.
\<close>

theorem createContact_channel_failure_counterexample:
  "moqui_rejects_email (PostPersons ''Jane'' ''Roe'') = Inr (PartyData (Str ''100000'')) \<and>
   createContact moqui_rejects_email contact_jane =
     (MoquiFailure ''Request failed with status code 500'',
      [PostPersons ''Jane'' ''Roe'', PostEmail (Str ''100000'') (Str ''jane@x.com'')])"
  by (simp add: createContact_def contact_jane_def contact0_def transformToMoquiParty_def trim_def
      js_whitespace_def strip_one_def drop_leading.simps contact_requests_def)

theorem createContact_success_iff_channels_accepted_witness:
  "fullName contact_jane = Str ''Jane Roe'' \<and>
   moqui_only_core (PostPersons ''Jane'' ''Roe'') = Inr (PartyData (Str ''100000'')) \<and>
   moqui_only_core (GetOrganizations (Str ''Acme'')) = Inl (HttpError 500 ''Request failed with status code 500'') \<and>
   moqui_only_core (PostAttributes (Str ''100000'') ''notes'' ''met at the fair'' ''Contact Notes'') =
     Inl (HttpError 500 ''Request failed with status code 500'') \<and>
   createContact moqui_only_core contact_jane =
     (MoquiSuccess (Str ''100000'') 1 True,
      [PostPersons ''Jane'' ''Roe'', PostEmail (Str ''100000'') (Str ''jane@x.com''),
       GetOrganizations (Str ''Acme''),
       PostAttributes (Str ''100000'') ''notes'' ''met at the fair'' ''Contact Notes''])"
proof -
  have t: "transformToMoquiParty ''Jane Roe'' = (''Jane'', ''Roe'')"
    by (simp add: transformToMoquiParty_def trim_def js_whitespace_def strip_one_def drop_leading.simps)
  have n: "fullName contact_jane = Str ''Jane Roe''"
    by (simp add: contact_jane_def contact0_def)
  have p: "moqui_only_core (PostPersons (fst (transformToMoquiParty ''Jane Roe''))
             (snd (transformToMoquiParty ''Jane Roe''))) = Inr (PartyData (Str ''100000''))"
    by (simp add: t)
  have run: "snd (createContact moqui_only_core contact_jane) =
      [PostPersons ''Jane'' ''Roe'', PostEmail (Str ''100000'') (Str ''jane@x.com''),
       GetOrganizations (Str ''Acme''),
       PostAttributes (Str ''100000'') ''notes'' ''met at the fair'' ''Contact Notes'']"
    by (simp add: createContact_def contact_jane_def contact0_def t contact_requests_def
        addEmploymentInfo_def findOrCreateOrganization_def addCustomAttributes_def attributes_def
        Let_def)
  have ch: "contact_requests (Str ''100000'') contact_jane = [PostEmail (Str ''100000'') (Str ''jane@x.com'')]"
    by (simp add: contact_requests_def contact_jane_def contact0_def)
  from createContact_success_iff_channels_accepted
      [where api = moqui_only_core and c = contact_jane and name = "''Jane Roe''", OF n p] ch
  have "fst (createContact moqui_only_core contact_jane) = MoquiSuccess (Str ''100000'') 1 True"
    by (simp add: contact_jane_def contact0_def)
  with run n show ?thesis by (simp add: prod_eq_iff)
qed

section \<open>Properties of the record transformer\<close>

lemma join_with_contains:
  "x \<in> set xs \<Longrightarrow> \<exists>a b. join_with sep xs = a @ x @ b"
proof (induction sep xs rule: join_with.induct)
  case (1 sep)
  then show ?case by simp
next
  case (2 sep y)
  then have "join_with sep [y] = [] @ x @ []" by simp
  then show ?case by blast
next
  case (3 sep y z zs)
  show ?case
  proof (cases "x = y")
    case True
    then have "join_with sep (y # z # zs) = [] @ x @ (sep @ join_with sep (z # zs))" by simp
    then show ?thesis by blast
  next
    case False
    with "3.prems" have "x \<in> set (z # zs)" by simp
    from "3.IH" [OF this] obtain a b where "join_with sep (z # zs) = a @ x @ b" by blast
    then have "join_with sep (y # z # zs) = (y @ sep @ a) @ x @ b" by simp
    then show ?thesis by blast
  qed
qed

lemma details_member:
  "ks \<in> set schema \<Longrightarrow> v \<in> set (check env (snd ks) (field_value data (fst ks))) \<Longrightarrow>
   (fst ks, v) \<in> set (joi_validate False env schema data)"
  by (auto simp: joi_validate_def field_details_def)

lemma details_empty_iff:
  "joi_validate False env schema data = [] \<longleftrightarrow>
     (\<forall>ks \<in> set schema. check env (snd ks) (field_value data (fst ks)) = [])"
  by (auto simp: joi_validate_def field_details_def)

text \<open>
  Claim C5. \<open>transformToCdmContact\<close> fails exactly when some field of the schema has a
  violation, and the message of the one error it throws then contains the message of
  every violation of every field, not only of the first.
\<close>

theorem transform_reports_every_violation:
  "((\<exists>err. transformToCdmContact env formData userId = Inl err) \<longleftrightarrow>
      (\<exists>ks \<in> set cdmContactSchema.
          check env (snd ks) (field_value (cdmData env formData userId) (fst ks)) \<noteq> [])) \<and>
   (\<forall>err ks v. transformToCdmContact env formData userId = Inl err \<longrightarrow>
      ks \<in> set cdmContactSchema \<longrightarrow>
      v \<in> set (check env (snd ks) (field_value (cdmData env formData userId) (fst ks))) \<longrightarrow>
      (\<exists>a b. error_message err = a @ detail_message (fst ks, v) @ b))"
proof (intro conjI allI impI)
  show "(\<exists>err. transformToCdmContact env formData userId = Inl err) \<longleftrightarrow>
      (\<exists>ks \<in> set cdmContactSchema.
          check env (snd ks) (field_value (cdmData env formData userId) (fst ks)) \<noteq> [])"
    using details_empty_iff [of env cdmContactSchema "cdmData env formData userId"]
    by (auto simp: transformToCdmContact_def validateCdmContact_def Let_def)
next
  fix err ks v
  assume e: "transformToCdmContact env formData userId = Inl err"
    and k: "ks \<in> set cdmContactSchema"
    and v: "v \<in> set (check env (snd ks) (field_value (cdmData env formData userId) (fst ks)))"
  let ?details = "joi_validate False env cdmContactSchema (cdmData env formData userId)"
  from details_member [OF k v] have m: "detail_message (fst ks, v) \<in> set (map detail_message ?details)"
    by simp
  from join_with_contains [OF m, of "'', ''"] obtain a b where
    j: "join_with '', '' (map detail_message ?details) = a @ detail_message (fst ks, v) @ b"
    by blast
  from e have "error_message err =
      ''CDM Contact validation failed: '' @ join_with '', '' (map detail_message ?details)"
    by (auto simp: transformToCdmContact_def validateCdmContact_def Let_def split: if_splits)
  with j have "error_message err =
      (''CDM Contact validation failed: '' @ a) @ detail_message (fst ks, v) @ b" by simp
  then show "\<exists>a b. error_message err = a @ detail_message (fst ks, v) @ b" by blast
qed


theorem transform_reports_every_violation_witness:
  "transformToCdmContact tenv0 bad_form (JStr ''grafana-user'') =
     Inl (PlainError
       (''CDM Contact validation failed: '' @
        quoted ''fullName'' @ '' is not allowed to be empty, '' @
        quoted ''emailAddress'' @ '' must be a valid email, '' @
        quoted ''phoneNumber'' @ '' with value '' @ quoted ''abc'' @
        '' fails to match the required pattern: '' @ phone_regex_text @ '', '' @
        quoted ''preferredContactMethod'' @ '' must be one of [email, phone, mail], '' @
        quoted ''preferredContactMethod'' @ '' must be a string''))
   \<and> check tenv0 (SString True False (Some 1) (Some 255) Plain)
         (field_value (cdmData tenv0 bad_form (JStr ''grafana-user'')) ''fullName'') = [StringEmpty]
   \<and> check tenv0 (SString True False None None Email)
         (field_value (cdmData tenv0 bad_form (JStr ''grafana-user'')) ''emailAddress'') = [StringEmail]
   \<and> check tenv0 (SString False True None None PhonePattern)
         (field_value (cdmData tenv0 bad_form (JStr ''grafana-user'')) ''phoneNumber'') =
       [StringPatternBase ''abc'']
   \<and> check tenv0 (SValid [''email'', ''phone'', ''mail''])
         (field_value (cdmData tenv0 bad_form (JStr ''grafana-user'')) ''preferredContactMethod'') =
       [AnyOnly [''email'', ''phone'', ''mail''], StringBase]
   \<and> (\<exists>a b. error_message (PlainError
       (''CDM Contact validation failed: '' @
        quoted ''fullName'' @ '' is not allowed to be empty, '' @
        quoted ''emailAddress'' @ '' must be a valid email, '' @
        quoted ''phoneNumber'' @ '' with value '' @ quoted ''abc'' @
        '' fails to match the required pattern: '' @ phone_regex_text @ '', '' @
        quoted ''preferredContactMethod'' @ '' must be one of [email, phone, mail], '' @
        quoted ''preferredContactMethod'' @ '' must be a string'')) =
          a @ detail_message (''emailAddress'', StringEmail) @ b)"
proof -
  have run: "transformToCdmContact tenv0 bad_form (JStr ''grafana-user'') =
     Inl (PlainError
       (''CDM Contact validation failed: '' @
        quoted ''fullName'' @ '' is not allowed to be empty, '' @
        quoted ''emailAddress'' @ '' must be a valid email, '' @
        quoted ''phoneNumber'' @ '' with value '' @ quoted ''abc'' @
        '' fails to match the required pattern: '' @ phone_regex_text @ '', '' @
        quoted ''preferredContactMethod'' @ '' must be one of [email, phone, mail], '' @
        quoted ''preferredContactMethod'' @ '' must be a string''))"
    by (simp add: transformToCdmContact_def validateCdmContact_def joi_validate_def
        cdmContactSchema_def field_details_def field_value_def cdmData_def bad_form_def tenv0_def
        js_or_def trim_def js_whitespace_def strip_one_def drop_leading.simps string_rules_def
        toLowerCase_def Let_def phone_pattern_def phone_body.simps is_digit_def)
  have k: "(''emailAddress'', SString True False None None Email) \<in> set cdmContactSchema"
    by (simp add: cdmContactSchema_def)
  have c: "check tenv0 (SString True False (Some 1) (Some 255) Plain)
         (field_value (cdmData tenv0 bad_form (JStr ''grafana-user'')) ''fullName'') = [StringEmpty]"
    "check tenv0 (SString True False None None Email)
         (field_value (cdmData tenv0 bad_form (JStr ''grafana-user'')) ''emailAddress'') = [StringEmail]"
    "check tenv0 (SString False True None None PhonePattern)
         (field_value (cdmData tenv0 bad_form (JStr ''grafana-user'')) ''phoneNumber'') =
       [StringPatternBase ''abc'']"
    "check tenv0 (SValid [''email'', ''phone'', ''mail''])
         (field_value (cdmData tenv0 bad_form (JStr ''grafana-user'')) ''preferredContactMethod'') =
       [AnyOnly [''email'', ''phone'', ''mail''], StringBase]"
    by (simp_all add: field_value_def cdmData_def bad_form_def tenv0_def js_or_def trim_def
        js_whitespace_def strip_one_def drop_leading.simps string_rules_def phone_pattern_def
        phone_body.simps is_digit_def Let_def)
  from c(2) have v: "StringEmail \<in> set (check tenv0 (snd (''emailAddress'', SString True False None None Email))
         (field_value (cdmData tenv0 bad_form (JStr ''grafana-user''))
            (fst (''emailAddress'', SString True False None None Email))))"
    by simp
  from transform_reports_every_violation
         [of tenv0 bad_form "JStr ''grafana-user''", THEN conjunct2, rule_format, OF run k v]
       run c
  show ?thesis by simp
qed

section \<open>Properties of the webhook controller\<close>

text \<open>A delivery that the signature middleware does not pass on changes nothing.\<close>

lemma handler_rejected_unchanged:
  "verifyWebhookSignature h secret (rq_signature req) (rq_rawBody req) \<noteq> Next \<Longrightarrow>
   snd (post_gitea h secret api cfg env wid req w) = w"
  by (simp add: post_gitea_def split: mw_result.splits)

text \<open>
  Claim C2 at the inputs where the source departs from it. A signature header that is
  present but whose length differs from that of the expected digest makes
  \<open>timingSafeEqual\<close> throw: the middleware neither answers 401 nor calls the handler, the
  error goes to the application's error handler, and the world is unchanged.
\<close>

theorem verifyWebhookSignature_length_mismatch_throws:
  "truthy_str (rq_signature req) \<Longrightarrow> rq_rawBody req = Some body \<Longrightarrow>
   length (tmpl (rq_signature req)) \<noteq> length (h secret body) \<Longrightarrow>
   verifyWebhookSignature h secret (rq_signature req) (rq_rawBody req) =
     Throw (RangeError ''Input buffers must have the same byte length'') \<and>
   post_gitea h secret api cfg env wid req w =
     (Unhandled (RangeError ''Input buffers must have the same byte length''), w)"
  by (simp add: post_gitea_def verifyWebhookSignature_def)

theorem verifyWebhookSignature_length_mismatch_throws_witness:
  "truthy_str (rq_signature (merged_request (Str ''abc'') pr_jane)) \<and>
   rq_rawBody (merged_request (Str ''abc'') pr_jane) = Some ''{}'' \<and>
   length (tmpl (rq_signature (merged_request (Str ''abc'') pr_jane))) \<noteq>
     length (hmac0 ''your-webhook-secret'' ''{}'') \<and>
   post_gitea hmac0 ''your-webhook-secret'' moqui_down default_config env1 ''webhook-1''
       (merged_request (Str ''abc'') pr_jane) world1 =
     (Unhandled (RangeError ''Input buffers must have the same byte length''), world1)"
proof -
  have a: "truthy_str (rq_signature (merged_request (Str ''abc'') pr_jane))"
    and b: "rq_rawBody (merged_request (Str ''abc'') pr_jane) = Some ''{}''"
    and c: "length (tmpl (rq_signature (merged_request (Str ''abc'') pr_jane))) \<noteq>
            length (hmac0 ''your-webhook-secret'' ''{}'')"
    by (simp_all add: merged_request_def hmac0_def)
  from verifyWebhookSignature_length_mismatch_throws
      [where h = hmac0 and secret = "''your-webhook-secret''" and body = "''{}''"
         and req = "merged_request (Str ''abc'') pr_jane", OF a b c] a b c
  show ?thesis by simp
qed

text \<open>
  The pattern \<open>/Add Contact: (.+)/\<close> finds nothing in a text exactly when every
  occurrence of the literal is followed by a line terminator or by the end of the text.
\<close>

lemma prefix_followed:
  "(take (length lit) s = lit \<and> takeWhile (\<lambda>x. \<not> line_terminator x) (drop (length lit) s) \<noteq> []) \<longleftrightarrow>
   (\<exists>c b. s = lit @ c # b \<and> \<not> line_terminator c)"
proof
  assume h: "take (length lit) s = lit \<and> takeWhile (\<lambda>x. \<not> line_terminator x) (drop (length lit) s) \<noteq> []"
  then obtain c b where d: "drop (length lit) s = c # b" "\<not> line_terminator c"
    by (cases "drop (length lit) s") (auto split: if_splits)
  from h d have "s = lit @ c # b" by (metis append_take_drop_id)
  with d show "\<exists>c b. s = lit @ c # b \<and> \<not> line_terminator c" by blast
next
  assume "\<exists>c b. s = lit @ c # b \<and> \<not> line_terminator c"
  then show "take (length lit) s = lit \<and> takeWhile (\<lambda>x. \<not> line_terminator x) (drop (length lit) s) \<noteq> []"
    by auto
qed

lemma match_after_None_iff:
  "match_after lit s = None \<longleftrightarrow> (\<forall>a c b. s = a @ lit @ c # b \<longrightarrow> line_terminator c)"
proof (induction s)
  case Nil
  show ?case by simp
next
  case (Cons x xs)
  have split: "(\<forall>a c b. x # xs = a @ lit @ c # b \<longrightarrow> line_terminator c) \<longleftrightarrow>
        (\<forall>c b. x # xs = lit @ c # b \<longrightarrow> line_terminator c) \<and>
        (\<forall>a c b. xs = a @ lit @ c # b \<longrightarrow> line_terminator c)"
  proof (intro iffI conjI allI impI)
    fix c b assume "\<forall>a c b. x # xs = a @ lit @ c # b \<longrightarrow> line_terminator c" "x # xs = lit @ c # b"
    then show "line_terminator c" by (metis append_Nil)
  next
    fix a c b assume "\<forall>a c b. x # xs = a @ lit @ c # b \<longrightarrow> line_terminator c" "xs = a @ lit @ c # b"
    then show "line_terminator c" by (metis append_Cons)
  next
    fix a c b
    assume h: "(\<forall>c b. x # xs = lit @ c # b \<longrightarrow> line_terminator c) \<and>
               (\<forall>a c b. xs = a @ lit @ c # b \<longrightarrow> line_terminator c)"
      and e: "x # xs = a @ lit @ c # b"
    show "line_terminator c"
    proof (cases a)
      case Nil
      with h e show ?thesis by simp
    next
      case (Cons y ys)
      with e have "xs = ys @ lit @ c # b" by simp
      with h show ?thesis by blast
    qed
  qed
  have "match_after lit (x # xs) = None \<longleftrightarrow>
          \<not> (take (length lit) (x # xs) = lit \<and>
             takeWhile (\<lambda>x. \<not> line_terminator x) (drop (length lit) (x # xs)) \<noteq> []) \<and>
          match_after lit xs = None"
    by simp
  also have "\<dots> \<longleftrightarrow> (\<forall>c b. x # xs = lit @ c # b \<longrightarrow> line_terminator c) \<and>
        (\<forall>a c b. xs = a @ lit @ c # b \<longrightarrow> line_terminator c)"
    unfolding prefix_followed Cons.IH by blast
  finally show ?case using split by simp
qed

text \<open>
  Claim C10. A delivery that passes the signature check, with action \<open>closed\<close> and a
  merged pull request whose title is not a string or has no match of
  \<open>/Add Contact: (.+)/\<close>, yields no contact data, leaves the world as it was (no request
  to the party system, no client call to the store, hence no index update and no
  notification) and is answered with status 200.
\<close>

theorem non_contact_merge_is_ignored:
  assumes "verifyWebhookSignature h secret (rq_signature req) (rq_rawBody req) = Next"
    and "wb_action (rq_body req) = Str ''closed''"
    and "wb_pull_request (rq_body req) = Some pr"
    and "pr_merged pr"
    and "\<forall>title. pr_title pr = Str title \<longrightarrow>
           (\<forall>a c b. title = a @ ''Add Contact: '' @ c # b \<longrightarrow> line_terminator c)"
  shows "extractContactDataFromPR pr = None \<and>
         post_gitea h secret api cfg env wid req w = (Responded 200, w)"
proof -
  have x: "extractContactDataFromPR pr = None"
  proof (cases "pr_title pr")
    case (Str title)
    with assms(5) have "match_after ''Add Contact: '' title = None"
      unfolding match_after_None_iff by blast
    with Str show ?thesis by (simp add: extractContactDataFromPR_def)
  qed (simp_all add: extractContactDataFromPR_def)
  from assms(2) have nd: "wb_action (rq_body req) \<noteq> Str ''deleted''" by simp
  show ?thesis
    using x assms(1-4) nd
    by (simp add: post_gitea_def gitea_handler_def handlePullRequestMerged_def)
qed

theorem non_contact_merge_is_ignored_witness:
  "verifyWebhookSignature hmac0 ''your-webhook-secret''
      (rq_signature (merged_request (Str (replicate 64 (CHR ''a''))) pr_docs))
      (rq_rawBody (merged_request (Str (replicate 64 (CHR ''a''))) pr_docs)) = Next \<and>
   pr_title pr_docs = Str ''Update README'' \<and>
   match_after ''Add Contact: '' ''Update README'' = None \<and>
   post_gitea hmac0 ''your-webhook-secret'' moqui_down default_config env1 ''webhook-1''
       (merged_request (Str (replicate 64 (CHR ''a''))) pr_docs) world1 =
     (Responded 200, world1)"
proof -
  let ?req = "merged_request (Str (replicate 64 (CHR ''a''))) pr_docs"
  have v: "verifyWebhookSignature hmac0 ''your-webhook-secret'' (rq_signature ?req) (rq_rawBody ?req) = Next"
    by (simp add: verifyWebhookSignature_def merged_request_def hmac0_def)
  have a: "wb_action (rq_body ?req) = Str ''closed''"
    and p: "wb_pull_request (rq_body ?req) = Some pr_docs"
    and m: "pr_merged pr_docs"
    and t: "pr_title pr_docs = Str ''Update README''"
    by (simp_all add: merged_request_def pr_docs_def)
  have n: "match_after ''Add Contact: '' ''Update README'' = None" by simp
  then have "\<forall>a c b. ''Update README'' = a @ ''Add Contact: '' @ c # b \<longrightarrow> line_terminator c"
    unfolding match_after_None_iff .
  with t have h: "\<forall>title. pr_title pr_docs = Str title \<longrightarrow>
           (\<forall>a c b. title = a @ ''Add Contact: '' @ c # b \<longrightarrow> line_terminator c)"
    by simp
  from non_contact_merge_is_ignored
         [where h = hmac0 and secret = "''your-webhook-secret''" and req = ?req, OF v a p m h]
       v t n
  show ?thesis by simp
qed

text \<open>
  Claim C3 at the inputs where the source departs from it. When contact data is
  extracted and \<open>createContact\<close> reports a failure, \<open>handlePullRequestMerged\<close> throws
  \<open>Moqui integration failed: ...\<close> and the store is exactly as before: the contact is not
  marked as failed and no notification is stored.
\<close>

theorem merged_handler_failure_not_recorded:
  "extractContactDataFromPR pr = Some c \<Longrightarrow> \<not> moqui_success (fst (createContact api c)) \<Longrightarrow>
   (\<exists>msg. fst (handlePullRequestMerged api cfg env pr w) =
             Inl (PlainError (''Moqui integration failed: '' @ msg))) \<and>
   store (snd (handlePullRequestMerged api cfg env pr w)) = store w"
  by (cases "createContact api c"; cases "fst (createContact api c)")
     (auto simp: handlePullRequestMerged_def)

theorem merged_handler_failure_not_recorded_witness:
  "extractContactDataFromPR pr_jane \<noteq> None \<and>
   createContact moqui_down (the (extractContactDataFromPR pr_jane)) =
     (MoquiFailure ''connect ECONNREFUSED'', [PostPersons ''Jane'' ''Roe'']) \<and>
   fst (handlePullRequestMerged moqui_down default_config env1 pr_jane world1) =
     Inl (PlainError ''Moqui integration failed: connect ECONNREFUSED'') \<and>
   store (snd (handlePullRequestMerged moqui_down default_config env1 pr_jane world1)) = store0 \<and>
   indices store0 ''notifications'' = None \<and>
   (\<exists>ix d. indices store0 ''contacts'' = Some ix \<and> by_id ix ''c1'' = Some d \<and>
            d ''syncStatus'' = None)"
proof -
  have x: "extractContactDataFromPR pr_jane =
      Some \<lparr>contactId = Str ''c1'', fullName = Str ''Jane Roe'', emailAddress = Str ''jane@x.com'',
            phoneNumber = Undefined, company = Null, addressLine1 = Undefined,
            addressLine2 = Undefined, city = Undefined, stateProvince = Undefined,
            postalCode = Undefined, country = Undefined, jobTitle = Undefined,
            department = Undefined, preferredContactMethod = Undefined, notes_text = Undefined,
            tags = None, customFields = None\<rparr>"
    by (simp add: extractContactDataFromPR_def pr_jane_def line_terminator_def)
  have cc: "createContact moqui_down (the (extractContactDataFromPR pr_jane)) =
     (MoquiFailure ''connect ECONNREFUSED'', [PostPersons ''Jane'' ''Roe''])"
    by (simp add: x createContact_def moqui_down_def transformToMoquiParty_def trim_def js_whitespace_def strip_one_def drop_leading.simps)
  then have f: "\<not> moqui_success (fst (createContact moqui_down
      \<lparr>contactId = Str ''c1'', fullName = Str ''Jane Roe'', emailAddress = Str ''jane@x.com'',
            phoneNumber = Undefined, company = Null, addressLine1 = Undefined,
            addressLine2 = Undefined, city = Undefined, stateProvince = Undefined,
            postalCode = Undefined, country = Undefined, jobTitle = Undefined,
            department = Undefined, preferredContactMethod = Undefined, notes_text = Undefined,
            tags = None, customFields = None\<rparr>))"
    by (simp add: x)
  have r: "fst (handlePullRequestMerged moqui_down default_config env1 pr_jane world1) =
     Inl (PlainError ''Moqui integration failed: connect ECONNREFUSED'')"
    using cc by (simp add: handlePullRequestMerged_def x)
  have s: "indices store0 ''notifications'' = None"
      "\<exists>ix d. indices store0 ''contacts'' = Some ix \<and> by_id ix ''c1'' = Some d \<and>
            d ''syncStatus'' = None"
    by (simp_all add: store0_def)
  from merged_handler_failure_not_recorded
         [where api = moqui_down and pr = pr_jane and cfg = default_config and env = env1
            and w = world1, OF x f]
       x cc r s
  show ?thesis by (simp add: world1_def)
qed

text \<open>
  The success branch on a concrete delivery: the contact document gets \<open>syncStatus\<close>
  \<open>synced\<close> and the remote id, and a \<open>contact_synced\<close> notification is stored as sent.
\<close>

lemma merged_handler_success_run:
  "fst (handlePullRequestMerged moqui_only_core default_config env1 pr_jane world1) = Inr () \<and>
   (\<exists>ix d. indices (store (snd (handlePullRequestMerged moqui_only_core default_config env1
                                   pr_jane world1))) ''contacts'' = Some ix \<and>
            by_id ix ''c1'' = Some d \<and>
            d ''syncStatus'' = Some (JStr ''synced'') \<and> d ''moquiId'' = Some (JStr ''100000'')) \<and>
   (\<exists>ix d. indices (store (snd (handlePullRequestMerged moqui_only_core default_config env1
                                   pr_jane world1))) ''notifications'' = Some ix \<and>
            by_id ix ''notif-1735787045680-abcdefghi'' = Some d \<and>
            d ''type'' = Some (JStr ''contact_synced'') \<and> d ''status'' = Some (JStr ''sent''))"
  by (simp add: handlePullRequestMerged_def extractContactDataFromPR_def pr_jane_def
      line_terminator_def createContact_def transformToMoquiParty_def trim_def js_whitespace_def strip_one_def drop_leading.simps
      contact_requests_def Let_def updateContact_def client_update_def client_call_def
      world1_def store0_def default_config_def env1_def notify_def sendNotification_def
      client_index_def index_or_new_def empty_index_def fullNotification_def json_body_def
      map_add_def console_results_def)

section \<open>Which requests are repeated\<close>


































text \<open>
  Index bootstrap, which runs when the service starts and is no phase of the submission
  pipeline, has a loop of its own: \<open>initialize\<close> waits 5000 ms between its attempts, at
  most four times, and exactly four times when it gives up.
\<close>

lemma initialize_loop_waits:
  "initialize_loop cfg clock retries waits os = (r, waits1, os1) \<Longrightarrow> retries < os_maxRetries \<Longrightarrow>
   \<exists>j. j \<le> os_maxRetries - 1 - retries \<and> waits1 = waits @ replicate j os_retryDelay \<and>
       (r \<noteq> Inr () \<longrightarrow> j = os_maxRetries - 1 - retries)"
proof (induction cfg clock retries waits os rule: initialize_loop.induct)
  case (1 cfg clock retries waits os)
  note lt = "1.prems"(2)
  obtain ra sa where a: "initialize_attempt cfg clock os = (ra, sa)"
    by (cases "initialize_attempt cfg clock os")
  show ?case
  proof (cases ra)
    case (Inr v)
    with lt a "1.prems"(1) have "waits1 = waits" "r = Inr ()"
      by (simp_all add: initialize_loop.simps [of cfg clock retries])
    then show ?thesis by (intro exI [of _ 0]) simp
  next
    case (Inl e)
    show ?thesis
    proof (cases "retries + 1 = os_maxRetries")
      case last: True
      with Inl lt a "1.prems"(1) have "waits1 = waits"
        by (simp add: initialize_loop.simps [of cfg clock retries])
      with last show ?thesis by (intro exI [of _ 0]) simp
    next
      case more: False
      with Inl lt a "1.prems"(1)
      have rec: "initialize_loop cfg clock (retries + 1) (waits @ [os_retryDelay]) sa = (r, waits1, os1)"
        by (simp add: initialize_loop.simps [of cfg clock retries])
      from lt more have lt': "retries + 1 < os_maxRetries" by simp
      from "1.IH" [OF lt a [symmetric] Inl more rec lt']
      obtain j where j: "j \<le> os_maxRetries - 1 - (retries + 1)"
        "waits1 = (waits @ [os_retryDelay]) @ replicate j os_retryDelay"
        "r \<noteq> Inr () \<longrightarrow> j = os_maxRetries - 1 - (retries + 1)"
        by (elim exE conjE) (rule that, assumption+)
      show ?thesis
      proof (intro exI [of _ "Suc j"] conjI impI)
        show "Suc j \<le> os_maxRetries - 1 - retries" using j(1) lt' by simp
        show "waits1 = waits @ replicate (Suc j) os_retryDelay"
          unfolding j(2) by (simp add: replicate_append_same)
      next
        assume "r \<noteq> Inr ()"
        with j(3) have "j = os_maxRetries - 1 - (retries + 1)" by blast
        then show "Suc j = os_maxRetries - 1 - retries" using lt' by simp
      qed
    qed
  qed
qed



end
